theory Spec2Isabelle
  imports Main "HOL-Library.Multiset"
begin

section \<open>Data model\<close>

text \<open>
  The procedure utilities of \<^verbatim>\<open>Blockly.Procedures\<close> and the reconciliation pass
  \<^verbatim>\<open>Blockly.WorkspaceSvg.prototype.processProcedureReturnsChanged_\<close> work on the
  host's block graph. A block is modelled by the properties and methods the two source
  files read from it; a workspace by its list of top blocks and the fields the pass
  touches. JavaScript names ending in an underscore lose it, since Isabelle refuses such
  names.
\<close>

datatype error = TypeError

text \<open>
  \<^verbatim>\<open>Blockly.PROCEDURES_CALL_TYPE_STATEMENT\<close>, \<^verbatim>\<open>..._REPORTER\<close> and
  \<^verbatim>\<open>..._BOOLEAN\<close>: three distinct constants, compared with \<^verbatim>\<open>===\<close>.
\<close>

datatype return_type = STATEMENT | REPORTER | BOOLEAN

datatype output_shape = OUTPUT_SHAPE_HEXAGONAL | OUTPUT_SHAPE_ROUND | OUTPUT_SHAPE_SQUARE

text \<open>
  The \<^verbatim>\<open>return\<close> attribute of a mutation element: absent, the text of one of the
  three call types (what \<^verbatim>\<open>setAttribute('return', returnType)\<close> stores), or the text
  \<^verbatim>\<open>null\<close> (what \<^verbatim>\<open>setAttribute('return', null)\<close> stores).
\<close>

datatype return_attribute = No_attribute | Text_null | Text_of return_type

text \<open>
  A mutation element: the \<^verbatim>\<open>proccode\<close> attribute, the \<^verbatim>\<open>return\<close> attribute
  and the remaining attributes, which the code only copies.
\<close>

record mutation =
  proccode :: string
  return_attr :: return_attribute
  other_attrs :: "(string \<times> string) list"

text \<open>
  What the code reads from a single block:
  \<^item> \<^verbatim>\<open>id\<close> and \<^verbatim>\<open>type\<close>;
  \<^item> \<^verbatim>\<open>getProcCode\<close>: \<open>None\<close> when the block has no such method, otherwise the
    string it returns;
  \<^item> \<^verbatim>\<open>getReturn()\<close>, \<^verbatim>\<open>isInsertionMarker()\<close>, \<^verbatim>\<open>outputShape_\<close>
    (\<open>None\<close> for a block without output shape), \<^verbatim>\<open>isInFlyout\<close>;
  \<^item> \<^verbatim>\<open>getProcedureDef\<close>: \<open>None\<close> when the block has no such method,
    \<open>Some None\<close> when the method returns null, \<open>Some (Some t)\<close> when it
    returns the tuple \<open>t\<close> of name, parameter list and return flag;
  \<^item> \<^verbatim>\<open>renameProcedure\<close>: whether the block has that method;
  \<^item> \<^verbatim>\<open>mutationToDom()\<close>: \<open>None\<close> when it returns null.
\<close>

record block_info =
  id_of :: string
  type :: string
  getProcCode :: "string option"
  getReturn :: return_type
  isInsertionMarker :: bool
  outputShape :: "output_shape option"
  isInFlyout :: bool
  getProcedureDef :: "(string \<times> string list \<times> bool) option option"
  renameProcedure :: bool
  mutationToDom :: "mutation option"

text \<open>
  A block with the blocks attached to its named inputs, in input order, and the block
  connected below it (\<^verbatim>\<open>getNextBlock()\<close>).
\<close>

datatype block =
  Block (info: block_info) (inputs: "(string \<times> block) list") (nextBlock: "block option")

record workspace =
  topBlocks :: "block list"
  initialProcedureReturnTypes :: "(string \<times> return_type) list option"
  checkProcedureReturnAfterGesture :: bool
  procedureReturnChangeTimeout :: "nat option"
  procedureReturnsEnabled :: bool

definition PROCEDURES_CALL_BLOCK_TYPE :: string where
  "PROCEDURES_CALL_BLOCK_TYPE = ''procedures_call''"

definition PROCEDURES_DEFINITION_BLOCK_TYPE :: string where
  "PROCEDURES_DEFINITION_BLOCK_TYPE = ''procedures_definition''"

definition PROCEDURES_PROTOTYPE_BLOCK_TYPE :: string where
  "PROCEDURES_PROTOTYPE_BLOCK_TYPE = ''procedures_prototype''"

definition PROCEDURES_RETURN_BLOCK_TYPE :: string where
  "PROCEDURES_RETURN_BLOCK_TYPE = ''procedures_return''"

section \<open>Host queries\<close>

text \<open>
  Modelled from the spec: \<^verbatim>\<open>Blockly.Block.prototype.getDescendants\<close> is host code
  outside the two source files; the spec has the walk depth-first and pre-order. The
  children of a block are the blocks on its inputs followed by the next block.
\<close>

fun getDescendants :: "block \<Rightarrow> block list" where
  "getDescendants (Block i ins nx) =
     Block i ins nx # concat (map (\<lambda>(s, b). getDescendants b) ins) @
       (case nx of None \<Rightarrow> [] | Some n \<Rightarrow> getDescendants n)"

text \<open>
  Modelled from the spec: \<^verbatim>\<open>Blockly.Workspace.prototype.getAllBlocks\<close> is host code
  outside the two source files; the spec has it enumerate all nodes of the workspace.
\<close>

definition getAllBlocks :: "workspace \<Rightarrow> block list" where
  "getAllBlocks ws = concat (map getDescendants (topBlocks ws))"

text \<open>
  \<^verbatim>\<open>blocks[i] == opt_exclude\<close> compares object identities; the host gives every block
  of a workspace its own id, so identity is equality of ids. An omitted
  \<^verbatim>\<open>opt_exclude\<close> is \<open>None\<close> and equals no block.
\<close>

definition same_block :: "block \<Rightarrow> block option \<Rightarrow> bool" where
  "same_block b opt = (case opt of None \<Rightarrow> False | Some e \<Rightarrow> id_of (info b) = id_of (info e))"

text \<open>
  Modelled from the spec: the host's comparisons of names ignore case. Lower-casing is
  host code outside the two source files; this is lower-casing of ASCII letters, used on
  concrete inputs.
\<close>

definition toLowerCase :: "string \<Rightarrow> string" where
  "toLowerCase s =
     map (\<lambda>c. case map_of (zip ''ABCDEFGHIJKLMNOPQRSTUVWXYZ'' ''abcdefghijklmnopqrstuvwxyz'') c of
                 None \<Rightarrow> c
               | Some l \<Rightarrow> l) s"

text \<open>
  Modelled from the spec: \<^verbatim>\<open>Blockly.Names.equals\<close> is host code outside the two
  source files, a string equality that ignores case. The functions below take the
  comparison as a parameter; this is the instance used on concrete inputs.
\<close>

definition Names_equals :: "string \<Rightarrow> string \<Rightarrow> bool" where
  "Names_equals name1 name2 = (toLowerCase name1 = toLowerCase name2)"

section \<open>Name legality\<close>

text \<open>
  \<^verbatim>\<open>Blockly.Procedures.isNameUsed\<close>: the loop over all blocks. A block equal to
  \<^verbatim>\<open>opt_exclude\<close> is skipped; a block with \<^verbatim>\<open>getProcedureDef\<close> whose tuple name
  equals the name makes the function return \<^verbatim>\<open>false\<close>; the end of the loop returns
  \<^verbatim>\<open>true\<close>. Indexing a null tuple throws.
\<close>

fun isNameUsed_loop ::
  "(string \<Rightarrow> string \<Rightarrow> bool) \<Rightarrow> string \<Rightarrow> block option \<Rightarrow> block list \<Rightarrow> error + bool" where
  "isNameUsed_loop equals name opt_exclude [] = Inr True"
| "isNameUsed_loop equals name opt_exclude (b # blocks) =
     (if same_block b opt_exclude then isNameUsed_loop equals name opt_exclude blocks
      else case getProcedureDef (info b) of
             None \<Rightarrow> isNameUsed_loop equals name opt_exclude blocks
           | Some None \<Rightarrow> Inl TypeError
           | Some (Some procName) \<Rightarrow>
               if equals (fst procName) name then Inr False
               else isNameUsed_loop equals name opt_exclude blocks)"

definition isNameUsed ::
  "(string \<Rightarrow> string \<Rightarrow> bool) \<Rightarrow> string \<Rightarrow> workspace \<Rightarrow> block option \<Rightarrow> error + bool" where
  "isNameUsed equals name ws opt_exclude =
     isNameUsed_loop equals name opt_exclude (getAllBlocks ws)"

text \<open>\<^verbatim>\<open>Blockly.Procedures.isLegalName_\<close>: the negation of \<^verbatim>\<open>isNameUsed\<close>.\<close>

definition isLegalName ::
  "(string \<Rightarrow> string \<Rightarrow> bool) \<Rightarrow> string \<Rightarrow> workspace \<Rightarrow> block option \<Rightarrow> error + bool" where
  "isLegalName equals name ws opt_exclude =
     (case isNameUsed equals name ws opt_exclude of
        Inl e \<Rightarrow> Inl e
      | Inr used \<Rightarrow> Inr (\<not> used))"

subsection \<open>The numeric suffix\<close>

text \<open>
  \<^verbatim>\<open>name.match(/^(.*?)(\d+)$/)\<close>: the second group is the longest run of ASCII digits
  at the end of the name and must not be empty; the first group is what precedes it and
  must not hold a line terminator, which the dot does not match (of the four line
  terminators, line feed and carriage return are characters of \<open>string\<close>).
\<close>

definition isDigit :: "char \<Rightarrow> bool" where
  "isDigit c = ((48::nat) \<le> of_char c \<and> of_char c \<le> (57::nat))"

definition isLineTerminator :: "char \<Rightarrow> bool" where
  "isLineTerminator c = (of_char c = (10::nat) \<or> of_char c = (13::nat))"

definition match_suffix :: "string \<Rightarrow> (string \<times> string) option" where
  "match_suffix name =
     (let r2 = rev (takeWhile isDigit (rev name));
          r1 = rev (dropWhile isDigit (rev name))
      in if r2 = [] \<or> list_ex isLineTerminator r1 then None else Some (r1, r2))"

text \<open>
  \<^verbatim>\<open>parseInt(r[2], 10)\<close> on a string of digits, and the decimal string of a number.
  The counter is a natural number here; JavaScript computes it in double precision,
  which is the same number below \<open>2 ^ 53\<close>.
\<close>

definition parseInt :: "string \<Rightarrow> nat" where
  "parseInt ds = foldl (\<lambda>acc c. 10 * acc + (of_char c - (48::nat))) 0 ds"

fun toString :: "nat \<Rightarrow> string" where
  "toString n =
     (if n < 10 then [''0123456789'' ! n]
      else toString (n div 10) @ [''0123456789'' ! (n mod 10)])"

declare toString.simps [simp del]

definition next_name :: "string \<Rightarrow> string" where
  "next_name name =
     (case match_suffix name of
        None \<Rightarrow> name @ ''2''
      | Some r \<Rightarrow> fst r @ toString (parseInt (snd r) + 1))"

text \<open>
  \<^verbatim>\<open>Blockly.Procedures.findLegalName\<close>. The \<^verbatim>\<open>while\<close> loop may run forever, so it
  is a partial function: \<open>None\<close> is the loop that never leaves, \<open>Some (Inl e)\<close> an
  exception, \<open>Some (Inr name)\<close> the returned name. The workspace is
  \<^verbatim>\<open>block.workspace\<close>.
\<close>

partial_function (option) findLegalName_loop ::
  "(string \<Rightarrow> string \<Rightarrow> bool) \<Rightarrow> workspace \<Rightarrow> block \<Rightarrow> string \<Rightarrow> (error + string) option" where
  "findLegalName_loop equals ws block name =
     (case isLegalName equals name ws (Some block) of
        Inl e \<Rightarrow> Some (Inl e)
      | Inr legal \<Rightarrow>
          if \<not> legal then findLegalName_loop equals ws block (next_name name)
          else Some (Inr name))"

definition findLegalName ::
  "(string \<Rightarrow> string \<Rightarrow> bool) \<Rightarrow> workspace \<Rightarrow> string \<Rightarrow> block \<Rightarrow> (error + string) option" where
  "findLegalName equals ws name block =
     (if isInFlyout (info block) then Some (Inr name)
      else findLegalName_loop equals ws block name)"


section \<open>Effects on the host\<close>

text \<open>
  The host's block graph, event bus and toolbox are outside the two source files. What
  the code does to them is recorded as the list of host operations it invokes, in order,
  each with the block it is invoked on:
  \<^item> \<open>SetGroup\<close>: \<^verbatim>\<open>Blockly.Events.setGroup\<close>, opening (\<open>True\<close>) or closing
    (\<open>False\<close>) a change group;
  \<^item> \<open>Unplug\<close>, \<open>Dispose\<close>: \<^verbatim>\<open>block.unplug(true)\<close>, \<^verbatim>\<open>block.dispose()\<close>;
  \<^item> \<open>DomToBlock b owner t\<close>: \<^verbatim>\<open>Blockly.Xml.domToBlock\<close> on the serialised form of
    \<open>b\<close> in which the mutation element, the one of the block with id \<open>owner\<close>, has
    been given the \<^verbatim>\<open>return\<close> attribute \<open>t\<close>; the new block is then moved to the
    position of the old one (positions are not modelled);
  \<^item> \<open>RenameProcedure\<close>: \<^verbatim>\<open>block.renameProcedure(oldName, legalName)\<close>;
  \<^item> \<open>DomToMutation\<close>: \<^verbatim>\<open>caller.domToMutation(mutation)\<close>;
  \<^item> \<open>BlockChange\<close>: firing a \<^verbatim>\<open>Blockly.Events.BlockChange\<close> with the old and the
    new mutation text;
  \<^item> \<open>RefreshToolboxSelection\<close>, \<open>Alert\<close>, \<open>RegisterButtonCallback\<close>.
\<close>

datatype action =
    SetGroup bool
  | Unplug block
  | Dispose block
  | DomToBlock block string return_type
  | RenameProcedure block string string
  | DomToMutation block mutation
  | BlockChange block "mutation option" "mutation option"
  | RefreshToolboxSelection
  | Alert string
  | RegisterButtonCallback string

text \<open>
  The three global toggles of \<^verbatim>\<open>Blockly.Procedures\<close>, mutable statics in the source.
\<close>

record config =
  USER_CAN_CHANGE_CALL_TYPE :: bool
  ENFORCE_TYPES :: bool
  DEFAULT_ENABLE_RETURNS :: bool

definition default_config :: config where
  "default_config =
     \<lparr>USER_CAN_CHANGE_CALL_TYPE = True, ENFORCE_TYPES = False, DEFAULT_ENABLE_RETURNS = False\<rparr>"

section \<open>Renaming\<close>

text \<open>
  \<^verbatim>\<open>name.replace(/^[\s\xa0]+|[\s\xa0]+$/g, '')\<close>: white space is stripped at both
  ends. Of the characters \<^verbatim>\<open>\s\<close> matches, tab, line feed, vertical tab, form feed,
  carriage return, space and no-break space are characters of \<open>string\<close>.
\<close>

definition isSpace :: "char \<Rightarrow> bool" where
  "isSpace c = (of_char c \<in> {9, 10, 11, 12, 13, 32, 160::nat})"

definition trim :: "string \<Rightarrow> string" where
  "trim name = rev (dropWhile isSpace (rev (dropWhile isSpace name)))"

text \<open>
  \<^verbatim>\<open>Blockly.Procedures.rename\<close>, called on a field: \<open>sourceBlock\<close> is
  \<^verbatim>\<open>this.sourceBlock_\<close>, \<open>oldName\<close> is \<^verbatim>\<open>this.text_\<close>, \<open>ws\<close> is the workspace
  of the source block. The result is \<open>None\<close> when \<^verbatim>\<open>findLegalName\<close> does not
  return; otherwise the returned value with the host operations invoked.
\<close>

definition rename ::
  "(string \<Rightarrow> string \<Rightarrow> bool) \<Rightarrow> workspace \<Rightarrow> block \<Rightarrow> string \<Rightarrow> string
     \<Rightarrow> ((error + string) \<times> action list) option" where
  "rename equals ws sourceBlock oldName name =
     (case findLegalName equals ws (trim name) sourceBlock of
        None \<Rightarrow> None
      | Some (Inl e) \<Rightarrow> Some (Inl e, [])
      | Some (Inr legalName) \<Rightarrow>
          Some (Inr legalName,
            if oldName \<noteq> trim name \<and> oldName \<noteq> legalName
            then map (\<lambda>b. RenameProcedure b oldName legalName)
                   (filter (\<lambda>b. renameProcedure (info b)) (getAllBlocks ws))
            else []))"

section \<open>Callers and definitions\<close>

text \<open>
  \<^verbatim>\<open>Blockly.Procedures.getCallers\<close>. The first loop collects the descendants of every
  top block, skipping the top block with the id of \<^verbatim>\<open>definitionRoot\<close> unless
  \<^verbatim>\<open>allowRecursive\<close>. The second loop keeps the blocks of the call type whose
  \<^verbatim>\<open>getProcCode()\<close> is truthy (a non-empty string) and equal to the name; calling
  \<^verbatim>\<open>getProcCode\<close> on a block without that method throws.
\<close>

definition stacks_to_investigate :: "workspace \<Rightarrow> block \<Rightarrow> bool \<Rightarrow> block list" where
  "stacks_to_investigate ws definitionRoot allowRecursive =
     concat (map getDescendants
       (filter (\<lambda>block. \<not> (id_of (info block) = id_of (info definitionRoot) \<and> \<not> allowRecursive))
          (topBlocks ws)))"

fun getCallers_loop :: "string \<Rightarrow> block list \<Rightarrow> block list \<Rightarrow> error + block list" where
  "getCallers_loop name [] callers = Inr callers"
| "getCallers_loop name (block # allBlocks) callers =
     (if type (info block) = PROCEDURES_CALL_BLOCK_TYPE then
        (case getProcCode (info block) of
           None \<Rightarrow> Inl TypeError
         | Some procCode \<Rightarrow>
             if procCode \<noteq> [] \<and> procCode = name
             then getCallers_loop name allBlocks (callers @ [block])
             else getCallers_loop name allBlocks callers)
      else getCallers_loop name allBlocks callers)"

definition getCallers :: "string \<Rightarrow> workspace \<Rightarrow> block \<Rightarrow> bool \<Rightarrow> error + block list" where
  "getCallers name ws definitionRoot allowRecursive =
     getCallers_loop name (stacks_to_investigate ws definitionRoot allowRecursive) []"

text \<open>
  \<^verbatim>\<open>blocks[i].getInput('custom_block').connection.targetBlock()\<close>: the block on the
  input named \<^verbatim>\<open>custom_block\<close>. Every use in the source dereferences the result at
  once, so a missing input and an input with nothing attached both end in a
  \<^verbatim>\<open>TypeError\<close>; \<open>None\<close> stands for both.
\<close>

definition custom_block :: "block \<Rightarrow> block option" where
  "custom_block b = map_of (inputs b) ''custom_block''"

text \<open>\<^verbatim>\<open>Blockly.Procedures.getDefineBlock\<close>; \<open>Inr None\<close> is the returned null.\<close>

fun getDefineBlock_loop :: "string \<Rightarrow> block list \<Rightarrow> error + block option" where
  "getDefineBlock_loop procCode [] = Inr None"
| "getDefineBlock_loop procCode (b # blocks) =
     (if type (info b) = PROCEDURES_DEFINITION_BLOCK_TYPE then
        (case custom_block b of
           None \<Rightarrow> Inl TypeError
         | Some prototypeBlock \<Rightarrow>
             if getProcCode (info prototypeBlock) \<noteq> None
                \<and> getProcCode (info prototypeBlock) = Some procCode
             then Inr (Some b)
             else getDefineBlock_loop procCode blocks)
      else getDefineBlock_loop procCode blocks)"

definition getDefineBlock :: "string \<Rightarrow> workspace \<Rightarrow> error + block option" where
  "getDefineBlock procCode ws = getDefineBlock_loop procCode (topBlocks ws)"

text \<open>\<^verbatim>\<open>Blockly.Procedures.getPrototypeBlock\<close>.\<close>

definition getPrototypeBlock :: "string \<Rightarrow> workspace \<Rightarrow> error + block option" where
  "getPrototypeBlock procCode ws =
     (case getDefineBlock procCode ws of
        Inl e \<Rightarrow> Inl e
      | Inr None \<Rightarrow> Inr None
      | Inr (Some defineBlock) \<Rightarrow>
          (case custom_block defineBlock of
             None \<Rightarrow> Inl TypeError
           | Some prototypeBlock \<Rightarrow> Inr (Some prototypeBlock)))"

section \<open>Return type inference\<close>

text \<open>
  \<^verbatim>\<open>Blockly.Procedures.getBlockReturnType\<close>: the loop over the descendants, with the
  flag \<^verbatim>\<open>hasSeenBooleanReturn\<close>. At index \<open>i\<close> the list argument is the rest of the
  descendants from \<open>i\<close> on, so \<^verbatim>\<open>descendants[i + 1]\<close> exists when the tail is not
  empty and is then its head.
\<close>

fun getBlockReturnType_loop :: "bool \<Rightarrow> block list \<Rightarrow> return_type" where
  "getBlockReturnType_loop hasSeenBooleanReturn [] =
     (if hasSeenBooleanReturn then BOOLEAN else STATEMENT)"
| "getBlockReturnType_loop hasSeenBooleanReturn (d # descendants) =
     (if type (info d) = PROCEDURES_RETURN_BLOCK_TYPE then
        (if (case descendants of
               [] \<Rightarrow> False
             | n # _ \<Rightarrow> outputShape (info n) = Some OUTPUT_SHAPE_HEXAGONAL)
         then getBlockReturnType_loop True descendants
         else REPORTER)
      else getBlockReturnType_loop hasSeenBooleanReturn descendants)"

definition getBlockReturnType :: "block \<Rightarrow> return_type" where
  "getBlockReturnType block = getBlockReturnType_loop False (getDescendants block)"

text \<open>\<^verbatim>\<open>Blockly.Procedures.getProcedureReturnType\<close>.\<close>

definition getProcedureReturnType :: "string \<Rightarrow> workspace \<Rightarrow> error + return_type" where
  "getProcedureReturnType procCode ws =
     (case getDefineBlock procCode ws of
        Inl e \<Rightarrow> Inl e
      | Inr None \<Rightarrow> Inr STATEMENT
      | Inr (Some defineBlock) \<Rightarrow> Inr (getBlockReturnType defineBlock))"

text \<open>
  The objects built by \<^verbatim>\<open>getAllProcedureReturnTypes\<close> have no prototype and string
  keys: an association list in insertion order, with at most one entry per key.
\<close>

type_synonym return_types = "(string \<times> return_type) list"

definition hasOwnProperty :: "return_types \<Rightarrow> string \<Rightarrow> bool" where
  "hasOwnProperty obj key = (map_of obj key \<noteq> None)"

text \<open>\<^verbatim>\<open>Blockly.Procedures.getAllProcedureReturnTypes\<close>.\<close>

fun getAllProcedureReturnTypes_loop :: "block list \<Rightarrow> return_types \<Rightarrow> error + return_types" where
  "getAllProcedureReturnTypes_loop [] result = Inr result"
| "getAllProcedureReturnTypes_loop (block # blocks) result =
     (if type (info block) = PROCEDURES_DEFINITION_BLOCK_TYPE \<and> \<not> isInsertionMarker (info block)
      then
        (case custom_block block of
           None \<Rightarrow> Inl TypeError
         | Some prototypeBlock \<Rightarrow>
             (case getProcCode (info prototypeBlock) of
                None \<Rightarrow> Inl TypeError
              | Some procCode \<Rightarrow>
                  if \<not> hasOwnProperty result procCode
                  then getAllProcedureReturnTypes_loop blocks
                         (result @ [(procCode, getBlockReturnType block)])
                  else getAllProcedureReturnTypes_loop blocks result))
      else getAllProcedureReturnTypes_loop blocks result)"

definition getAllProcedureReturnTypes :: "workspace \<Rightarrow> error + return_types" where
  "getAllProcedureReturnTypes ws = getAllProcedureReturnTypes_loop (topBlocks ws) []"

section \<open>Shape rewrite\<close>

text \<open>
  \<^verbatim>\<open>Blockly.Procedures.changeReturnType\<close>. After \<^verbatim>\<open>unplug(true)\<close> nothing is
  connected below the block, so its serialised form holds the block and what is on its
  inputs. \<^verbatim>\<open>xml.querySelector('mutation')\<close> is the first mutation element in document
  order: the one of the first block of that subtree that has one. When there is none,
  \<^verbatim>\<open>mutation.setAttribute\<close> throws, after the block has been disposed.
\<close>

definition querySelector_mutation :: "block \<Rightarrow> block option" where
  "querySelector_mutation block =
     find (\<lambda>d. mutationToDom (info d) \<noteq> None)
       (getDescendants (Block (info block) (inputs block) None))"

definition changeReturnType :: "block \<Rightarrow> return_type \<Rightarrow> (error + unit) \<times> action list" where
  "changeReturnType block returnType =
     (case querySelector_mutation block of
        None \<Rightarrow> (Inl TypeError, [Unplug block, Dispose block])
      | Some owner \<Rightarrow>
          (Inr (), [Unplug block, Dispose block,
                    DomToBlock block (id_of (info owner)) returnType]))"

section \<open>Reconciliation pass\<close>

text \<open>
  The first loop of \<^verbatim>\<open>processProcedureReturnsChanged_\<close>, over the copy of the top
  blocks. \<^verbatim>\<open>Object.prototype.hasOwnProperty.call(initialTypes, procCode)\<close> throws when
  \<^verbatim>\<open>initialTypes\<close> is null. An exception ends the loop; the operations invoked so far
  are kept.
\<close>

fun update_loose_blocks ::
  "config \<Rightarrow> return_types option \<Rightarrow> return_types \<Rightarrow> block list \<Rightarrow> (error + unit) \<times> action list" where
  "update_loose_blocks cfg initialTypes finalTypes [] = (Inr (), [])"
| "update_loose_blocks cfg initialTypes finalTypes (block # blocks) =
     (if type (info block) \<noteq> PROCEDURES_CALL_BLOCK_TYPE
      then update_loose_blocks cfg initialTypes finalTypes blocks
      else if isInsertionMarker (info block)
      then update_loose_blocks cfg initialTypes finalTypes blocks
      else if nextBlock block \<noteq> None
      then update_loose_blocks cfg initialTypes finalTypes blocks
      else
        (case getProcCode (info block) of
           None \<Rightarrow> (Inl TypeError, [])
         | Some procCode \<Rightarrow>
             (case initialTypes of
                None \<Rightarrow> (Inl TypeError, [])
              | Some initial \<Rightarrow>
                  if \<not> hasOwnProperty initial procCode \<or> \<not> hasOwnProperty finalTypes procCode
                  then update_loose_blocks cfg initialTypes finalTypes blocks
                  else
                    (case map_of finalTypes procCode of
                       None \<Rightarrow> update_loose_blocks cfg initialTypes finalTypes blocks
                     | Some actualReturnType \<Rightarrow>
                         if getReturn (info block) \<noteq> actualReturnType
                            \<and> (\<not> USER_CAN_CHANGE_CALL_TYPE cfg
                                \<or> map_of initial procCode \<noteq> Some actualReturnType)
                         then
                           (case changeReturnType block actualReturnType of
                              (Inl e, ops) \<Rightarrow> (Inl e, ops)
                            | (Inr u, ops) \<Rightarrow>
                                (case update_loose_blocks cfg initialTypes finalTypes blocks of
                                   (r, ops') \<Rightarrow> (r, ops @ ops')))
                         else update_loose_blocks cfg initialTypes finalTypes blocks))))"

text \<open>
  The second loop: \<^verbatim>\<open>for (var procCode in finalTypes)\<close> with its \<^verbatim>\<open>break\<close>. The
  keys are visited in some order fixed by the engine, and the loop only computes whether
  one of them passes the test, so the list of keys is walked as it is.
\<close>

fun toolboxOutdated_loop :: "return_types option \<Rightarrow> return_types \<Rightarrow> string list \<Rightarrow> error + bool" where
  "toolboxOutdated_loop initialTypes finalTypes [] = Inr False"
| "toolboxOutdated_loop initialTypes finalTypes (procCode # keys) =
     (case initialTypes of
        None \<Rightarrow> Inl TypeError
      | Some initial \<Rightarrow>
          if hasOwnProperty initial procCode
             \<and> map_of initial procCode \<noteq> map_of finalTypes procCode
          then Inr True
          else toolboxOutdated_loop initialTypes finalTypes keys)"

text \<open>
  \<^verbatim>\<open>Blockly.WorkspaceSvg.prototype.processProcedureReturnsChanged_\<close>: the result, the
  workspace with its three fields reset, and the host operations invoked. An exception of
  \<^verbatim>\<open>getAllProcedureReturnTypes\<close> comes before the fields are reset.
\<close>

definition processProcedureReturnsChanged ::
  "config \<Rightarrow> workspace \<Rightarrow> (error + unit) \<times> workspace \<times> action list" where
  "processProcedureReturnsChanged cfg ws =
     (let initialTypes = initialProcedureReturnTypes ws in
      case getAllProcedureReturnTypes ws of
        Inl e \<Rightarrow> (Inl e, ws, [])
      | Inr finalTypes \<Rightarrow>
          (let ws' = ws\<lparr>initialProcedureReturnTypes := None,
                        checkProcedureReturnAfterGesture := False,
                        procedureReturnChangeTimeout := None\<rparr> in
           case update_loose_blocks cfg initialTypes finalTypes (topBlocks ws) of
             (Inl e, ops) \<Rightarrow> (Inl e, ws', SetGroup True # ops)
           | (Inr u, ops) \<Rightarrow>
               (case toolboxOutdated_loop initialTypes finalTypes (map fst finalTypes) of
                  Inl e \<Rightarrow> (Inl e, ws', SetGroup True # ops @ [SetGroup False])
                | Inr toolboxOutdated \<Rightarrow>
                    (Inr (), ws',
                     SetGroup True # ops @ [SetGroup False] @
                       (if toolboxOutdated then [RefreshToolboxSelection] else [])))))"

section \<open>Caller and prototype mutation\<close>

text \<open>
  The loop of \<^verbatim>\<open>mutateCallersAndPrototype\<close> over the callers and the prototype.
  \<^verbatim>\<open>oldMutationDom.getAttribute('return')\<close> throws when \<^verbatim>\<open>mutationToDom()\<close>
  returned null; an absent attribute reads as null, which \<^verbatim>\<open>setAttribute\<close> stores as
  text. What \<^verbatim>\<open>caller.mutationToDom()\<close> returns after \<^verbatim>\<open>caller.domToMutation\<close> is
  the host's business and comes as the parameter \<open>mutationAfter\<close>.
\<close>

definition preserve_return :: "mutation \<Rightarrow> mutation \<Rightarrow> mutation" where
  "preserve_return mutation oldMutationDom =
     mutation\<lparr>return_attr :=
       (case return_attr oldMutationDom of No_attribute \<Rightarrow> Text_null | a \<Rightarrow> a)\<rparr>"

fun mutate_loop ::
  "(block \<Rightarrow> mutation \<Rightarrow> mutation option) \<Rightarrow> mutation \<Rightarrow> block list \<Rightarrow> (error + unit) \<times> action list" where
  "mutate_loop mutationAfter mutation [] = (Inr (), [])"
| "mutate_loop mutationAfter mutation (caller # callers) =
     (case mutationToDom (info caller) of
        None \<Rightarrow> (Inl TypeError, [])
      | Some oldMutationDom \<Rightarrow>
          (let mutationToReplaceWith = preserve_return mutation oldMutationDom;
               newMutation = mutationAfter caller mutationToReplaceWith;
               ops = DomToMutation caller mutationToReplaceWith #
                     (if Some oldMutationDom \<noteq> newMutation
                      then [BlockChange caller (Some oldMutationDom) newMutation] else [])
           in case mutate_loop mutationAfter mutation callers of
                (r, ops') \<Rightarrow> (r, ops @ ops')))"

text \<open>\<^verbatim>\<open>Blockly.Procedures.mutateCallersAndPrototype\<close>.\<close>

definition mutateCallersAndPrototype ::
  "(block \<Rightarrow> mutation \<Rightarrow> mutation option) \<Rightarrow> string \<Rightarrow> workspace \<Rightarrow> mutation
     \<Rightarrow> (error + unit) \<times> action list" where
  "mutateCallersAndPrototype mutationAfter name ws mutation =
     (case getDefineBlock name ws of
        Inl e \<Rightarrow> (Inl e, [])
      | Inr defineBlock \<Rightarrow>
          (case getPrototypeBlock name ws of
             Inl e \<Rightarrow> (Inl e, [])
           | Inr prototypeBlock \<Rightarrow>
               (case (defineBlock, prototypeBlock) of
                  (Some d, Some p) \<Rightarrow>
                    (case getCallers name ws d True of
                       Inl e \<Rightarrow> (Inl e, [])
                     | Inr callers \<Rightarrow>
                         (case mutate_loop mutationAfter mutation (callers @ [p]) of
                            (Inl e, ops) \<Rightarrow> (Inl e, SetGroup True # ops)
                          | (Inr u, ops) \<Rightarrow> (Inr (), SetGroup True # ops @ [SetGroup False])))
                | _ \<Rightarrow> (Inr (), [Alert ''No define block on workspace'']))))"

section \<open>Call shape change\<close>

text \<open>
  The callback of the menu option made by \<^verbatim>\<open>makeChangeTypeOption\<close>. The new type is
  computed before the group opens; \<^verbatim>\<open>changeReturnType\<close> runs inside
  \<^verbatim>\<open>try ... finally\<close>, so the group is closed on both ways out.
\<close>

definition makeChangeTypeOption_callback ::
  "workspace \<Rightarrow> block \<Rightarrow> (error + unit) \<times> action list" where
  "makeChangeTypeOption_callback ws block =
     (let isStatement = (getReturn (info block) = STATEMENT);
          newType =
            (if isStatement then
               (case getProcCode (info block) of
                  None \<Rightarrow> Inl TypeError
                | Some procCode \<Rightarrow>
                    (case getProcedureReturnType procCode ws of
                       Inl e \<Rightarrow> Inl e
                     | Inr actualReturnType \<Rightarrow>
                         Inr (if actualReturnType = BOOLEAN then actualReturnType
                              else REPORTER)))
             else Inr STATEMENT)
      in case newType of
           Inl e \<Rightarrow> (Inl e, [])
         | Inr t \<Rightarrow>
             (case changeReturnType block t of
                (r, ops) \<Rightarrow> (r, SetGroup True # ops @ [SetGroup False])))"

section \<open>Deleting a definition\<close>

text \<open>
  \<^verbatim>\<open>Blockly.Procedures.deleteProcedureDefCallback\<close>; \<open>ws\<close> is
  \<^verbatim>\<open>definitionRoot.workspace\<close>. \<^verbatim>\<open>definitionRoot.dispose()\<close> deletes the whole
  stack, which the block value carries.
\<close>

definition deleteProcedureDefCallback ::
  "string \<Rightarrow> workspace \<Rightarrow> block \<Rightarrow> (error + bool) \<times> action list" where
  "deleteProcedureDefCallback procCode ws definitionRoot =
     (case getCallers procCode ws definitionRoot False of
        Inl e \<Rightarrow> (Inl e, [])
      | Inr callers \<Rightarrow>
          if length callers > 0 then (Inr False, [])
          else (Inr True,
                [SetGroup True, Dispose definitionRoot, SetGroup False,
                 RefreshToolboxSelection]))"

section \<open>Toolbox listing\<close>

text \<open>
  The elements \<^verbatim>\<open>flyoutCategory\<close> builds: a button with its callback key (its text
  comes from the message table), a \<^verbatim>\<open>procedures_call\<close> block holding a mutation, and
  the return block with its text shadow.
\<close>

datatype element = Button string | Call_block mutation | Return_block

text \<open>\<^verbatim>\<open>Blockly.Procedures.allProcedureMutations\<close>.\<close>

definition allProcedureMutations :: "workspace \<Rightarrow> mutation list" where
  "allProcedureMutations root =
     concat (map (\<lambda>b. if type (info b) = PROCEDURES_PROTOTYPE_BLOCK_TYPE
                         then (case mutationToDom (info b) of None \<Rightarrow> [] | Some m \<Rightarrow> [m])
                         else [])
               (getAllBlocks root))"

text \<open>
  \<^verbatim>\<open>Blockly.Procedures.sortProcedureMutations_\<close>: \<^verbatim>\<open>Array.prototype.sort\<close> on a
  copy, with \<^verbatim>\<open>Blockly.scratchBlocksUtils.compareStrings\<close> on the \<^verbatim>\<open>proccode\<close>
  attributes. The comparison is host code and comes as a parameter; the sort is stable,
  written as insertion from the right.
\<close>

fun insert_mutation ::
  "(string \<Rightarrow> string \<Rightarrow> int) \<Rightarrow> mutation \<Rightarrow> mutation list \<Rightarrow> mutation list" where
  "insert_mutation compareStrings a [] = [a]"
| "insert_mutation compareStrings a (b # bs) =
     (if compareStrings (proccode a) (proccode b) \<le> 0 then a # b # bs
      else b # insert_mutation compareStrings a bs)"

definition sortProcedureMutations ::
  "(string \<Rightarrow> string \<Rightarrow> int) \<Rightarrow> mutation list \<Rightarrow> mutation list" where
  "sortProcedureMutations compareStrings mutations =
     foldr (insert_mutation compareStrings) mutations []"

text \<open>
  Modelled from the spec: the order the host's string comparison is built on is host
  code outside the two source files; this is the order of strings by character code,
  with a result that is negative, zero or positive.
\<close>

fun compare_codes :: "string \<Rightarrow> string \<Rightarrow> int" where
  "compare_codes [] [] = 0"
| "compare_codes [] (b # bs) = - 1"
| "compare_codes (a # as) [] = 1"
| "compare_codes (a # as) (b # bs) =
     (if (of_char a :: nat) < of_char b then - 1
      else if (of_char b :: nat) < of_char a then 1
      else compare_codes as bs)"

text \<open>
  Modelled from the spec: \<^verbatim>\<open>Blockly.scratchBlocksUtils.compareStrings\<close> is host code
  outside the two source files, a string comparison that ignores case. This is the
  instance used on concrete inputs, over ASCII letters.
\<close>

definition compareStrings :: "string \<Rightarrow> string \<Rightarrow> int" where
  "compareStrings str1 str2 = compare_codes (toLowerCase str1) (toLowerCase str2)"

text \<open>
  The loop of \<^verbatim>\<open>flyoutCategory\<close> over the sorted mutations: each is cloned, given
  the \<^verbatim>\<open>return\<close> attribute unless the procedure is a statement, and pushed inside a
  call block.
\<close>

fun push_call_blocks :: "workspace \<Rightarrow> mutation list \<Rightarrow> element list \<Rightarrow> error + element list" where
  "push_call_blocks ws [] xmlList = Inr xmlList"
| "push_call_blocks ws (m # mutations) xmlList =
     (case getProcedureReturnType (proccode m) ws of
        Inl e \<Rightarrow> Inl e
      | Inr returnType \<Rightarrow>
          push_call_blocks ws mutations
            (xmlList @
               [Call_block (if returnType \<noteq> STATEMENT
                            then m\<lparr>return_attr := Text_of returnType\<rparr> else m)]))"

text \<open>
  \<^verbatim>\<open>Blockly.Procedures.flyoutCategory\<close> with \<^verbatim>\<open>addCreateButton_\<close>. The return
  block and then the button on how to use it are put at the front with
  \<^verbatim>\<open>unshift\<close>.
\<close>

definition flyoutCategory ::
  "(string \<Rightarrow> string \<Rightarrow> int) \<Rightarrow> config \<Rightarrow> workspace \<Rightarrow> (error + element list) \<times> action list" where
  "flyoutCategory cmp cfg ws =
     (let mutations = sortProcedureMutations cmp (allProcedureMutations ws) in
      case push_call_blocks ws mutations [Button ''CREATE_PROCEDURE''] of
        Inl e \<Rightarrow> (Inl e, [RegisterButtonCallback ''CREATE_PROCEDURE''])
      | Inr xmlList \<Rightarrow>
          (let showReturn =
                 (if DEFAULT_ENABLE_RETURNS cfg then length mutations > 0
                  else procedureReturnsEnabled ws)
           in (Inr (if showReturn
                    then Button ''OPEN_RETURN_DOCS'' # Return_block # xmlList
                    else xmlList),
               [RegisterButtonCallback ''CREATE_PROCEDURE''])))"

section \<open>Concrete blocks and workspaces\<close>

definition plain_info :: "string \<Rightarrow> string \<Rightarrow> block_info" where
  "plain_info i t =
     \<lparr>id_of = i, type = t, getProcCode = None, getReturn = STATEMENT,
      isInsertionMarker = False, outputShape = None, isInFlyout = False,
      getProcedureDef = None, renameProcedure = False, mutationToDom = None\<rparr>"

definition empty_workspace :: workspace where
  "empty_workspace =
     \<lparr>topBlocks = [], initialProcedureReturnTypes = None,
      checkProcedureReturnAfterGesture = False, procedureReturnChangeTimeout = None,
      procedureReturnsEnabled = False\<rparr>"

text \<open>A block that defines the procedure \<open>name\<close> through \<^verbatim>\<open>getProcedureDef\<close>.\<close>

definition def_block :: "string \<Rightarrow> string \<Rightarrow> block" where
  "def_block i name =
     Block ((plain_info i ''procedures_defnoreturn'')
              \<lparr>getProcedureDef := Some (Some (name, [], False)), renameProcedure := True\<rparr>)
       [] None"

text \<open>A loose call block of a procedure, with the shape \<open>t\<close>.\<close>

definition call_block :: "string \<Rightarrow> string \<Rightarrow> return_type \<Rightarrow> block" where
  "call_block i procCode t =
     Block ((plain_info i ''procedures_call'')
              \<lparr>getProcCode := Some procCode, getReturn := t,
               mutationToDom :=
                 Some \<lparr>proccode = procCode, return_attr = Text_of t, other_attrs = []\<rparr>\<rparr>)
       [] None"

text \<open>A prototype block and a definition block holding it, with a body below.\<close>

definition prototype_block :: "string \<Rightarrow> string \<Rightarrow> block" where
  "prototype_block i procCode =
     Block ((plain_info i ''procedures_prototype'')
              \<lparr>getProcCode := Some procCode,
               mutationToDom :=
                 Some \<lparr>proccode = procCode, return_attr = No_attribute, other_attrs = []\<rparr>\<rparr>)
       [] None"

definition definition_block :: "string \<Rightarrow> string \<Rightarrow> block option \<Rightarrow> block" where
  "definition_block i procCode body =
     Block (plain_info i ''procedures_definition'')
       [(''custom_block'', prototype_block (i @ ''_proto'') procCode)] body"

text \<open>
  A return block with the block in its value slot and the block below it; a number or
  text literal (round) and a boolean reporter (hexagonal).
\<close>

definition return_stmt :: "string \<Rightarrow> block \<Rightarrow> block option \<Rightarrow> block" where
  "return_stmt i v nx = Block (plain_info i ''procedures_return'') [(''VALUE'', v)] nx"

definition round_literal :: "string \<Rightarrow> block" where
  "round_literal i =
     Block ((plain_info i ''text'')\<lparr>outputShape := Some OUTPUT_SHAPE_ROUND\<rparr>) [] None"

definition true_literal :: "string \<Rightarrow> block" where
  "true_literal i =
     Block ((plain_info i ''operator_not'')\<lparr>outputShape := Some OUTPUT_SHAPE_HEXAGONAL\<rparr>) [] None"

text \<open>
  A workspace after an edit that made the procedure \<open>foo\<close> return a value: its
  definition now holds a return block, the snapshot taken before the edit has it as a
  statement, and a loose call block still has the statement shape.
\<close>

definition drifted_workspace :: workspace where
  "drifted_workspace =
     empty_workspace
       \<lparr>topBlocks :=
          [definition_block ''d'' ''foo'' (Some (return_stmt ''r1'' (round_literal ''v1'') None)),
           call_block ''c1'' ''foo'' STATEMENT],
        initialProcedureReturnTypes := Some [(''foo'', STATEMENT)]\<rparr>"

text \<open>
  A workspace with an insertion marker that is a call of \<open>foo\<close>, and a call block
  whose procedure code is still the empty string.
\<close>

definition marker_workspace :: workspace where
  "marker_workspace =
     empty_workspace
       \<lparr>topBlocks :=
          [definition_block ''d'' ''foo'' None,
           Block ((info (call_block ''m1'' ''foo'' STATEMENT))\<lparr>isInsertionMarker := True\<rparr>) [] None,
           call_block ''c0'' '''' STATEMENT]\<rparr>"

text \<open>Two workspaces with two definitions each, for renaming.\<close>

definition two_procedures :: workspace where
  "two_procedures =
     empty_workspace\<lparr>topBlocks := [def_block ''d1'' ''foo'', def_block ''d2'' ''bar'']\<rparr>"

definition suffixed_procedures :: workspace where
  "suffixed_procedures =
     empty_workspace\<lparr>topBlocks := [def_block ''d1'' ''foo'', def_block ''d2'' ''foo2'']\<rparr>"

text \<open>
  A workspace in which \<open>foo\<close> is defined twice, the first time with a return block,
  next to a statement procedure \<open>Bar\<close>; return blocks are enabled.
\<close>

definition twice_defined :: workspace where
  "twice_defined =
     empty_workspace
       \<lparr>topBlocks :=
          [definition_block ''d1'' ''foo'' (Some (return_stmt ''r1'' (round_literal ''v1'') None)),
           definition_block ''d2'' ''foo'' None,
           definition_block ''d3'' ''Bar'' None],
        procedureReturnsEnabled := True\<rparr>"

text \<open>
  A call block that serialises without a mutation element, and the workspace of
  \<open>drifted_workspace\<close> with that block as the loose call.
\<close>

definition bare_call :: block where
  "bare_call = Block ((info (call_block ''c1'' ''foo'' STATEMENT))\<lparr>mutationToDom := None\<rparr>) [] None"

definition throwing_workspace :: workspace where
  "throwing_workspace =
     empty_workspace
       \<lparr>topBlocks :=
          [definition_block ''d'' ''foo'' (Some (return_stmt ''r1'' (round_literal ''v1'') None)),
           bare_call],
        initialProcedureReturnTypes := Some [(''foo'', STATEMENT)]\<rparr>"

section \<open>Properties named in the results\<close>

text \<open>
  A return block at index \<open>i\<close> of a traversal that is not followed by a hexagonal
  block: the traversal ends with it, or the block at \<open>i + 1\<close> has another shape or
  none.
\<close>

definition plain_return_at :: "block list \<Rightarrow> nat \<Rightarrow> bool" where
  "plain_return_at ds i \<longleftrightarrow>
     i < length ds \<and> type (info (ds ! i)) = PROCEDURES_RETURN_BLOCK_TYPE \<and>
     \<not> (Suc i < length ds \<and> outputShape (info (ds ! Suc i)) = Some OUTPUT_SHAPE_HEXAGONAL)"

text \<open>
  The condition under which the pass is to rewrite a top-level call block to the type
  \<open>t\<close>: it is no insertion marker, nothing is connected below it, its procedure code
  is in both snapshots, \<open>t\<close> is the final type and differs from the cached type of
  the block, and the override toggle is off or the type changed between the snapshots.
\<close>

definition call_site_outdated ::
  "config \<Rightarrow> return_types \<Rightarrow> return_types \<Rightarrow> block \<Rightarrow> return_type \<Rightarrow> bool" where
  "call_site_outdated cfg initialTypes finalTypes block t \<longleftrightarrow>
     type (info block) = PROCEDURES_CALL_BLOCK_TYPE \<and>
     \<not> isInsertionMarker (info block) \<and> nextBlock block = None \<and>
     (\<exists>procCode ti.
        getProcCode (info block) = Some procCode \<and>
        map_of initialTypes procCode = Some ti \<and> map_of finalTypes procCode = Some t \<and>
        getReturn (info block) \<noteq> t \<and> (\<not> USER_CAN_CHANGE_CALL_TYPE cfg \<or> ti \<noteq> t))"

section \<open>Name legality: results\<close>

lemmas concrete_defs =
  empty_workspace_def def_block_def plain_info_def call_block_def prototype_block_def
  definition_block_def return_stmt_def round_literal_def true_literal_def
  PROCEDURES_CALL_BLOCK_TYPE_def PROCEDURES_DEFINITION_BLOCK_TYPE_def
  PROCEDURES_PROTOTYPE_BLOCK_TYPE_def PROCEDURES_RETURN_BLOCK_TYPE_def

text \<open>
  What the code computes, when no \<^verbatim>\<open>getProcedureDef\<close> returns null: the name is
  found legal exactly when another definition has it.
\<close>

lemma isNameUsed_loop_collision:
  assumes "\<forall>b \<in> set blocks. getProcedureDef (info b) \<noteq> Some None"
  shows "isNameUsed_loop equals name opt_exclude blocks =
           Inr (\<not> (\<exists>b \<in> set blocks. \<not> same_block b opt_exclude \<and>
                     (\<exists>procName. getProcedureDef (info b) = Some (Some procName) \<and>
                        equals (fst procName) name)))"
  using assms by (induction blocks) (auto split: option.splits)

lemma isLegalName_iff_collision:
  assumes "\<forall>b \<in> set (getAllBlocks ws). getProcedureDef (info b) \<noteq> Some None"
  shows "isLegalName equals name ws opt_exclude =
           Inr (\<exists>b \<in> set (getAllBlocks ws). \<not> same_block b opt_exclude \<and>
                  (\<exists>procName. getProcedureDef (info b) = Some (Some procName) \<and>
                     equals (fst procName) name))"
  by (simp add: isLegalName_def isNameUsed_def isNameUsed_loop_collision [OF assms])

text \<open>
  C1. \<^verbatim>\<open>isLegalName_\<close> is to be true exactly when no other definition has the name.
  In a workspace whose only definition is named \<open>foo\<close>, the code finds the name
  \<open>bar\<close>, which no definition has, illegal, and the name \<open>foo\<close>, which is taken,
  legal: \<^verbatim>\<open>isNameUsed\<close> returns \<^verbatim>\<open>false\<close> on a match and \<^verbatim>\<open>true\<close> at the end
  of the loop, the reverse of what its documentation says.
\<close>

theorem isLegalName_inverted:
  "isLegalName Names_equals ''bar'' (empty_workspace\<lparr>topBlocks := [def_block ''d1'' ''foo'']\<rparr>) None
     = Inr False
   \<and> isLegalName Names_equals ''foo'' (empty_workspace\<lparr>topBlocks := [def_block ''d1'' ''foo'']\<rparr>) None
     = Inr True"
  by (simp add: isLegalName_def isNameUsed_def getAllBlocks_def concrete_defs
      same_block_def Names_equals_def toLowerCase_def)

text \<open>
  When every name is found illegal, the loop of \<^verbatim>\<open>findLegalName\<close> never ends.
\<close>

lemma findLegalName_loop_never:
  assumes "\<And>name. isLegalName equals name ws (Some block) = Inr False"
  shows "findLegalName_loop equals ws block name = None"
proof (cases "findLegalName_loop equals ws block name")
  case None
  then show ?thesis .
next
  case (Some y)
  have "False"
    by (rule findLegalName_loop.raw_induct
          [where P = "\<lambda>e w b n y. e = equals \<and> w = ws \<and> b = block \<longrightarrow> False",
           OF _ Some, rule_format])
       (auto simp: assms)
  then show ?thesis ..
qed

text \<open>
  The parts of the loop that do what is expected of them: a block in a flyout keeps the
  proposed name, a name the code finds legal is returned unchanged, and a returned name
  is one the code finds legal.
\<close>

lemma findLegalName_in_flyout:
  "isInFlyout (info block) \<Longrightarrow> findLegalName equals ws name block = Some (Inr name)"
  by (simp add: findLegalName_def)

lemma findLegalName_already_legal:
  "isLegalName equals name ws (Some block) = Inr True \<Longrightarrow>
     findLegalName equals ws name block = Some (Inr name)"
  by (simp add: findLegalName_def findLegalName_loop.simps)

lemma findLegalName_result_legal:
  assumes "findLegalName equals ws name block = Some (Inr legalName)"
      and "\<not> isInFlyout (info block)"
  shows "isLegalName equals legalName ws (Some block) = Inr True"
proof -
  from assms have loop: "findLegalName_loop equals ws block name = Some (Inr legalName)"
    by (simp add: findLegalName_def)
  have "Inr legalName = (Inr legalName :: error + string) \<longrightarrow>
          isLegalName equals legalName ws (Some block) = Inr True"
    by (rule findLegalName_loop.raw_induct
          [where P = "\<lambda>e w b n r. r = Inr legalName \<longrightarrow>
                        isLegalName e legalName w (Some b) = Inr True",
           OF _ loop])
       (auto split: sum.splits if_splits)
  then show ?thesis by simp
qed

lemma findLegalName_taken:
  "findLegalName Names_equals two_procedures ''bar'' (def_block ''d1'' ''foo'')
     = Some (Inr ''bar'')"
  by (subst findLegalName_def, subst findLegalName_loop.simps)
     (simp add: two_procedures_def isLegalName_def isNameUsed_def getAllBlocks_def
        same_block_def Names_equals_def toLowerCase_def concrete_defs)

text \<open>
  C2. \<^verbatim>\<open>findLegalName\<close> is to end with a legal name. The user renames the only
  procedure of the workspace, \<open>foo\<close>, to \<open>bar\<close>: the block itself is skipped,
  \<^verbatim>\<open>isNameUsed\<close> reaches the end of its loop and returns \<^verbatim>\<open>true\<close> for every
  name, so no name is ever legal and the \<^verbatim>\<open>while\<close> loop does not end. With a second
  procedure named \<open>bar\<close> in the workspace, the loop ends at once and returns
  \<open>bar\<close>, the name that is taken.
\<close>

theorem findLegalName_diverges_or_collides:
  "findLegalName Names_equals (empty_workspace\<lparr>topBlocks := [def_block ''d1'' ''foo'']\<rparr>)
     ''bar'' (def_block ''d1'' ''foo'') = None
   \<and> findLegalName Names_equals two_procedures ''bar'' (def_block ''d1'' ''foo'')
     = Some (Inr ''bar'')
   \<and> getProcedureDef (info (def_block ''d2'' ''bar'')) = Some (Some (''bar'', [], False))
   \<and> def_block ''d2'' ''bar'' \<in> set (getAllBlocks two_procedures)"
proof -
  have "isLegalName Names_equals name (empty_workspace\<lparr>topBlocks := [def_block ''d1'' ''foo'']\<rparr>)
          (Some (def_block ''d1'' ''foo'')) = Inr False" for name
    by (simp add: isLegalName_def isNameUsed_def getAllBlocks_def concrete_defs same_block_def)
  then have "findLegalName_loop Names_equals
               (empty_workspace\<lparr>topBlocks := [def_block ''d1'' ''foo'']\<rparr>)
               (def_block ''d1'' ''foo'') ''bar'' = None"
    by (rule findLegalName_loop_never)
  then have never: "findLegalName Names_equals
                      (empty_workspace\<lparr>topBlocks := [def_block ''d1'' ''foo'']\<rparr>)
                      ''bar'' (def_block ''d1'' ''foo'') = None"
    by (simp add: findLegalName_def concrete_defs)
  have taken: "getProcedureDef (info (def_block ''d2'' ''bar'')) = Some (Some (''bar'', [], False))"
    by (simp add: concrete_defs)
  have there: "def_block ''d2'' ''bar'' \<in> set (getAllBlocks two_procedures)"
    by (simp add: getAllBlocks_def two_procedures_def concrete_defs)
  from never findLegalName_taken taken there show ?thesis by blast
qed

section \<open>Return type inference: results\<close>

lemma getBlockReturnType_loop_STATEMENT:
  "getBlockReturnType_loop seen ds = STATEMENT \<longleftrightarrow>
     \<not> seen \<and> (\<forall>d \<in> set ds. type (info d) \<noteq> PROCEDURES_RETURN_BLOCK_TYPE)"
  by (induction ds arbitrary: seen) (auto split: list.splits)

lemma plain_return_at_Cons:
  "plain_return_at (d # ds) i \<longleftrightarrow>
     (i = 0 \<and> type (info d) = PROCEDURES_RETURN_BLOCK_TYPE \<and>
        \<not> (ds \<noteq> [] \<and> outputShape (info (hd ds)) = Some OUTPUT_SHAPE_HEXAGONAL))
     \<or> (\<exists>j. i = Suc j \<and> plain_return_at ds j)"
  by (cases i; cases ds) (auto simp: plain_return_at_def)

lemma follows_hexagonal:
  "(case ds of [] \<Rightarrow> False | n # x \<Rightarrow> outputShape (info n) = Some OUTPUT_SHAPE_HEXAGONAL)
     \<longleftrightarrow> ds \<noteq> [] \<and> outputShape (info (hd ds)) = Some OUTPUT_SHAPE_HEXAGONAL"
  by (cases ds) auto

lemma getBlockReturnType_loop_REPORTER:
  "getBlockReturnType_loop seen ds = REPORTER \<longleftrightarrow> (\<exists>i. plain_return_at ds i)"
proof (induction ds arbitrary: seen)
  case Nil
  then show ?case by (simp add: plain_return_at_def)
next
  case (Cons d ds)
  have "(\<exists>i. plain_return_at (d # ds) i) \<longleftrightarrow>
          (type (info d) = PROCEDURES_RETURN_BLOCK_TYPE \<and>
             \<not> (ds \<noteq> [] \<and> outputShape (info (hd ds)) = Some OUTPUT_SHAPE_HEXAGONAL))
          \<or> (\<exists>j. plain_return_at ds j)"
    by (auto simp: plain_return_at_Cons)
  then show ?case
    by (simp add: Cons.IH follows_hexagonal del: hd_Cons_tl)
qed

text \<open>
  C5. \<^verbatim>\<open>getBlockReturnType\<close> over the pre-order traversal of the definition: a
  return block not followed by a hexagonal block (or followed by nothing) makes the
  procedure a reporter; otherwise, a return block makes it a boolean; with no return
  block it is a statement. The four scenarios: a body that returns a round literal is a
  reporter, an empty body a statement, a body that returns a boolean reporter a boolean,
  and a body that returns a boolean reporter and then a text a reporter. A procedure
  code with no definition block has the statement type.
\<close>

theorem getBlockReturnType_classifies:
  "getBlockReturnType block =
     (if \<exists>i < length (getDescendants block).
            type (info (getDescendants block ! i)) = PROCEDURES_RETURN_BLOCK_TYPE \<and>
            \<not> (Suc i < length (getDescendants block) \<and>
               outputShape (info (getDescendants block ! Suc i)) = Some OUTPUT_SHAPE_HEXAGONAL)
      then REPORTER
      else if \<exists>d \<in> set (getDescendants block). type (info d) = PROCEDURES_RETURN_BLOCK_TYPE
      then BOOLEAN
      else STATEMENT)
   \<and> getBlockReturnType
       (definition_block ''d'' ''f'' (Some (return_stmt ''r1'' (round_literal ''v1'') None)))
     = REPORTER
   \<and> getBlockReturnType (definition_block ''d'' ''f'' None) = STATEMENT
   \<and> getBlockReturnType
       (definition_block ''d'' ''f'' (Some (return_stmt ''r1'' (true_literal ''v1'') None)))
     = BOOLEAN
   \<and> getBlockReturnType
       (definition_block ''d'' ''f''
          (Some (return_stmt ''r1'' (true_literal ''v1'')
             (Some (return_stmt ''r2'' (round_literal ''v2'') None)))))
     = REPORTER
   \<and> (getDefineBlock procCode ws = Inr None \<longrightarrow>
        getProcedureReturnType procCode ws = Inr STATEMENT)"
proof -
  let ?ds = "getDescendants block"
  have rep: "getBlockReturnType block = REPORTER \<longleftrightarrow> (\<exists>i. plain_return_at ?ds i)"
    by (simp add: getBlockReturnType_def getBlockReturnType_loop_REPORTER)
  have stm: "getBlockReturnType block = STATEMENT \<longleftrightarrow>
               (\<forall>d \<in> set ?ds. type (info d) \<noteq> PROCEDURES_RETURN_BLOCK_TYPE)"
    by (simp add: getBlockReturnType_def getBlockReturnType_loop_STATEMENT)
  have general: "getBlockReturnType block =
     (if \<exists>i < length ?ds. type (info (?ds ! i)) = PROCEDURES_RETURN_BLOCK_TYPE \<and>
            \<not> (Suc i < length ?ds \<and> outputShape (info (?ds ! Suc i)) = Some OUTPUT_SHAPE_HEXAGONAL)
      then REPORTER
      else if \<exists>d \<in> set ?ds. type (info d) = PROCEDURES_RETURN_BLOCK_TYPE then BOOLEAN
      else STATEMENT)"
    using rep stm by (cases "getBlockReturnType block") (auto simp: plain_return_at_def)
  have s1: "getBlockReturnType
       (definition_block ''d'' ''f'' (Some (return_stmt ''r1'' (round_literal ''v1'') None)))
     = REPORTER"
    by (simp add: getBlockReturnType_def concrete_defs)
  have s2: "getBlockReturnType (definition_block ''d'' ''f'' None) = STATEMENT"
    by (simp add: getBlockReturnType_def concrete_defs)
  have s3: "getBlockReturnType
       (definition_block ''d'' ''f'' (Some (return_stmt ''r1'' (true_literal ''v1'') None)))
     = BOOLEAN"
    by (simp add: getBlockReturnType_def concrete_defs)
  have s4: "getBlockReturnType
       (definition_block ''d'' ''f''
          (Some (return_stmt ''r1'' (true_literal ''v1'')
             (Some (return_stmt ''r2'' (round_literal ''v2'') None)))))
     = REPORTER"
    by (simp add: getBlockReturnType_def concrete_defs)
  have none: "getDefineBlock procCode ws = Inr None \<longrightarrow>
        getProcedureReturnType procCode ws = Inr STATEMENT"
    by (simp add: getProcedureReturnType_def)
  from general s1 s2 s3 s4 none show ?thesis by blast
qed

theorem getBlockReturnType_classifies_witness:
  "plain_return_at
     (getDescendants (definition_block ''d'' ''f''
        (Some (return_stmt ''r1'' (true_literal ''v1'')
           (Some (return_stmt ''r2'' (round_literal ''v2'') None)))))) 4
   \<and> getBlockReturnType
       (definition_block ''d'' ''f''
          (Some (return_stmt ''r1'' (true_literal ''v1'')
             (Some (return_stmt ''r2'' (round_literal ''v2'') None)))))
     = REPORTER
   \<and> getDefineBlock ''f'' empty_workspace = Inr None
   \<and> getProcedureReturnType ''f'' empty_workspace = Inr STATEMENT"
proof -
  let ?B = "definition_block ''d'' ''f''
              (Some (return_stmt ''r1'' (true_literal ''v1'')
                 (Some (return_stmt ''r2'' (round_literal ''v2'') None))))"
  note classified = getBlockReturnType_classifies [of ?B "''f''" empty_workspace]
  have none: "getDefineBlock ''f'' empty_workspace = Inr None"
    by (simp add: getDefineBlock_def concrete_defs)
  have at: "plain_return_at (getDescendants ?B) 4"
    by (simp add: plain_return_at_def concrete_defs)
  then have ex: "\<exists>i < length (getDescendants ?B).
            type (info (getDescendants ?B ! i)) = PROCEDURES_RETURN_BLOCK_TYPE \<and>
            \<not> (Suc i < length (getDescendants ?B) \<and>
               outputShape (info (getDescendants ?B ! Suc i)) = Some OUTPUT_SHAPE_HEXAGONAL)"
    unfolding plain_return_at_def by blast
  from classified have "getBlockReturnType ?B =
     (if \<exists>i < length (getDescendants ?B).
            type (info (getDescendants ?B ! i)) = PROCEDURES_RETURN_BLOCK_TYPE \<and>
            \<not> (Suc i < length (getDescendants ?B) \<and>
               outputShape (info (getDescendants ?B ! Suc i)) = Some OUTPUT_SHAPE_HEXAGONAL)
      then REPORTER
      else if \<exists>d \<in> set (getDescendants ?B). type (info d) = PROCEDURES_RETURN_BLOCK_TYPE
      then BOOLEAN
      else STATEMENT)"
    by (rule conjunct1)
  with ex have reporter: "getBlockReturnType ?B = REPORTER"
    by (simp only: if_True)
  from classified none have "getProcedureReturnType ''f'' empty_workspace = Inr STATEMENT"
    by blast
  with none at reporter show ?thesis by blast
qed

section \<open>Reconciliation pass: results\<close>

lemma update_loose_blocks_sound:
  "update_loose_blocks cfg (Some initial) final blocks = (Inr (), ops) \<Longrightarrow> a \<in> set ops \<Longrightarrow>
     \<exists>b \<in> set blocks. \<exists>t. call_site_outdated cfg initial final b t \<and>
        (a = Unplug b \<or> a = Dispose b \<or> (\<exists>owner. a = DomToBlock b owner t))"
proof (induction blocks arbitrary: ops)
  case Nil
  then show ?case by simp
next
  case (Cons b bs)
  then show ?case
    by (fastforce simp: call_site_outdated_def changeReturnType_def hasOwnProperty_def
        split: if_splits option.splits prod.splits sum.splits)
qed

lemma update_loose_blocks_complete:
  "update_loose_blocks cfg (Some initial) final blocks = (Inr (), ops) \<Longrightarrow> b \<in> set blocks \<Longrightarrow>
     call_site_outdated cfg initial final b t \<Longrightarrow>
     Unplug b \<in> set ops \<and> Dispose b \<in> set ops \<and> (\<exists>owner. DomToBlock b owner t \<in> set ops)"
proof (induction blocks arbitrary: ops)
  case Nil
  then show ?case by simp
next
  case (Cons c bs)
  then show ?case
    by (fastforce simp: call_site_outdated_def changeReturnType_def hasOwnProperty_def
        split: if_splits option.splits prod.splits sum.splits)
qed

lemma update_loose_blocks_no_refresh:
  "update_loose_blocks cfg initialTypes final blocks = (r, ops) \<Longrightarrow>
     RefreshToolboxSelection \<notin> set ops \<and> SetGroup g \<notin> set ops"
proof (induction blocks arbitrary: r ops)
  case Nil
  then show ?case by simp
next
  case (Cons b bs)
  then show ?case
    by (fastforce simp: changeReturnType_def split: if_splits option.splits prod.splits sum.splits)
qed

lemma toolboxOutdated_loop_exists:
  "toolboxOutdated_loop (Some initial) final keys =
     Inr (\<exists>k \<in> set keys. hasOwnProperty initial k \<and> map_of initial k \<noteq> map_of final k)"
  by (induction keys) auto

lemma toolboxOutdated_changed:
  "toolboxOutdated_loop (Some initial) final (map fst final) =
     Inr (\<exists>procCode ti tf. map_of initial procCode = Some ti \<and>
            map_of final procCode = Some tf \<and> ti \<noteq> tf)"
proof -
  have "(\<exists>k \<in> set (map fst final). hasOwnProperty initial k \<and> map_of initial k \<noteq> map_of final k)
          \<longleftrightarrow> (\<exists>procCode ti tf. map_of initial procCode = Some ti \<and>
            map_of final procCode = Some tf \<and> ti \<noteq> tf)"
    (is "?L \<longleftrightarrow> ?R")
  proof
    assume ?L
    then obtain k where k: "k \<in> fst ` set final" "map_of initial k \<noteq> None"
      "map_of initial k \<noteq> map_of final k"
      by (auto simp: hasOwnProperty_def)
    from k(1) have "map_of final k \<noteq> None" by (simp add: map_of_eq_None_iff)
    then obtain tf where "map_of final k = Some tf" by blast
    moreover from k(2) obtain ti where "map_of initial k = Some ti" by blast
    ultimately show ?R using k(3) by auto
  next
    assume ?R
    then obtain k ti tf where k: "map_of initial k = Some ti" "map_of final k = Some tf" "ti \<noteq> tf"
      by blast
    from k(2) have "k \<in> fst ` set final" by (metis map_of_eq_None_iff option.distinct(1))
    with k show ?L by (auto simp: hasOwnProperty_def)
  qed
  then show ?thesis by (simp add: toolboxOutdated_loop_exists)
qed

lemma pass_completed:
  assumes "initialProcedureReturnTypes ws = Some initialTypes"
      and "getAllProcedureReturnTypes ws = Inr finalTypes"
      and "processProcedureReturnsChanged cfg ws = (Inr (), ws', ops)"
  obtains ops1 where
      "update_loose_blocks cfg (Some initialTypes) finalTypes (topBlocks ws) = (Inr (), ops1)"
      "ops = SetGroup True # ops1 @ [SetGroup False] @
         (if \<exists>procCode ti tf. map_of initialTypes procCode = Some ti \<and>
                map_of finalTypes procCode = Some tf \<and> ti \<noteq> tf
          then [RefreshToolboxSelection] else [])"
  using assms
  by (auto simp: processProcedureReturnsChanged_def Let_def toolboxOutdated_changed
      split: prod.splits sum.splits if_splits)

text \<open>
  The pass completes on a workspace with an initial snapshot whose definition blocks hold
  a prototype with a procedure code and whose call blocks have a procedure code and a
  mutation.
\<close>

lemma getAllProcedureReturnTypes_loop_total:
  assumes "\<forall>b \<in> set blocks.
             type (info b) = PROCEDURES_DEFINITION_BLOCK_TYPE \<and> \<not> isInsertionMarker (info b) \<longrightarrow>
             (\<exists>p procCode. custom_block b = Some p \<and> getProcCode (info p) = Some procCode)"
  shows "\<exists>finalTypes. getAllProcedureReturnTypes_loop blocks result = Inr finalTypes"
  using assms
proof (induction blocks arbitrary: result)
  case Nil
  then show ?case by simp
next
  case (Cons b bs)
  then show ?case by (fastforce split: option.splits)
qed

lemma update_loose_blocks_total:
  assumes "\<forall>b \<in> set blocks.
             type (info b) = PROCEDURES_CALL_BLOCK_TYPE \<longrightarrow>
             getProcCode (info b) \<noteq> None \<and> mutationToDom (info b) \<noteq> None"
  shows "\<exists>ops. update_loose_blocks cfg (Some initial) final blocks = (Inr (), ops)"
  using assms
proof (induction blocks)
  case Nil
  then show ?case by simp
next
  case (Cons b bs)
  then obtain ops where rest: "update_loose_blocks cfg (Some initial) final bs = (Inr (), ops)"
    by auto
  have own: "querySelector_mutation b \<noteq> None" if "mutationToDom (info b) \<noteq> None"
    using that by (cases b) (simp add: querySelector_mutation_def)
  from Cons.prems have
    "type (info b) = PROCEDURES_CALL_BLOCK_TYPE \<longrightarrow>
       getProcCode (info b) \<noteq> None \<and> querySelector_mutation b \<noteq> None"
    using own by simp
  with rest show ?case
    by (auto simp: changeReturnType_def split: option.splits)
qed

lemma pass_completes:
  assumes "initialProcedureReturnTypes ws = Some initialTypes"
      and "\<forall>b \<in> set (topBlocks ws).
             type (info b) = PROCEDURES_DEFINITION_BLOCK_TYPE \<and> \<not> isInsertionMarker (info b) \<longrightarrow>
             (\<exists>p procCode. custom_block b = Some p \<and> getProcCode (info p) = Some procCode)"
      and "\<forall>b \<in> set (topBlocks ws).
             type (info b) = PROCEDURES_CALL_BLOCK_TYPE \<longrightarrow>
             getProcCode (info b) \<noteq> None \<and> mutationToDom (info b) \<noteq> None"
  shows "\<exists>ws' ops. processProcedureReturnsChanged cfg ws = (Inr (), ws', ops)"
proof -
  from getAllProcedureReturnTypes_loop_total [OF assms(2), of "[]"]
  obtain finalTypes where final: "getAllProcedureReturnTypes ws = Inr finalTypes"
    by (auto simp: getAllProcedureReturnTypes_def)
  from update_loose_blocks_total [OF assms(3), of cfg initialTypes finalTypes]
  obtain ops where
    loop: "update_loose_blocks cfg (Some initialTypes) finalTypes (topBlocks ws) = (Inr (), ops)"
    by blast
  have "\<exists>outdated. toolboxOutdated_loop (Some initialTypes) finalTypes (map fst finalTypes)
          = Inr outdated"
    by (induction "map fst finalTypes") (auto simp: toolboxOutdated_loop_exists)
  with final loop assms(1) show ?thesis
    by (auto simp: processProcedureReturnsChanged_def Let_def)
qed

text \<open>
  C3. In a pass that completes, with the initial snapshot \<open>initialTypes\<close> and the
  freshly inferred types \<open>finalTypes\<close>, a top-level call block is instantiated anew
  with the return type \<open>t\<close> exactly when it is no insertion marker, has no block
  below it, its procedure code is in both snapshots, \<open>t\<close> is its final type and
  differs from the cached type of the block, and the override toggle is off or the
  initial and final types differ. A call block that is not rewritten is neither
  unplugged nor disposed.
\<close>

theorem reconciliation_rewrites_exactly:
  assumes "initialProcedureReturnTypes ws = Some initialTypes"
      and "getAllProcedureReturnTypes ws = Inr finalTypes"
      and "processProcedureReturnsChanged cfg ws = (Inr (), ws', ops)"
      and "block \<in> set (topBlocks ws)"
      and "type (info block) = PROCEDURES_CALL_BLOCK_TYPE"
  shows "((\<exists>owner. DomToBlock block owner t \<in> set ops) \<longleftrightarrow>
            \<not> isInsertionMarker (info block) \<and> nextBlock block = None \<and>
            (\<exists>procCode ti.
               getProcCode (info block) = Some procCode \<and>
               map_of initialTypes procCode = Some ti \<and>
               map_of finalTypes procCode = Some t \<and>
               getReturn (info block) \<noteq> t \<and>
               (\<not> USER_CAN_CHANGE_CALL_TYPE cfg \<or> ti \<noteq> t)))
       \<and> (Unplug block \<in> set ops \<longleftrightarrow> (\<exists>owner t'. DomToBlock block owner t' \<in> set ops))
       \<and> (Dispose block \<in> set ops \<longleftrightarrow> (\<exists>owner t'. DomToBlock block owner t' \<in> set ops))"
proof -
  from assms(1-3) obtain ops1 where
      loop: "update_loose_blocks cfg (Some initialTypes) finalTypes (topBlocks ws) = (Inr (), ops1)"
      and ops: "ops = SetGroup True # ops1 @ [SetGroup False] @
         (if \<exists>procCode ti tf. map_of initialTypes procCode = Some ti \<and>
                map_of finalTypes procCode = Some tf \<and> ti \<noteq> tf
          then [RefreshToolboxSelection] else [])"
    by (rule pass_completed)
  have dom: "DomToBlock block owner u \<in> set ops \<longleftrightarrow> DomToBlock block owner u \<in> set ops1"
    for owner u
    by (auto simp: ops)
  have unplug: "Unplug block \<in> set ops \<longleftrightarrow> Unplug block \<in> set ops1"
    by (auto simp: ops)
  have dispose: "Dispose block \<in> set ops \<longleftrightarrow> Dispose block \<in> set ops1"
    by (auto simp: ops)
  have sound: "call_site_outdated cfg initialTypes finalTypes block u"
    if "DomToBlock block owner u \<in> set ops1" for owner u
    using update_loose_blocks_sound [OF loop that] by auto
  have complete: "Unplug block \<in> set ops1 \<and> Dispose block \<in> set ops1 \<and>
                    (\<exists>owner. DomToBlock block owner u \<in> set ops1)"
    if "call_site_outdated cfg initialTypes finalTypes block u" for u
    using update_loose_blocks_complete [OF loop assms(4) that] .
  have touched: "\<exists>u. call_site_outdated cfg initialTypes finalTypes block u"
    if "Unplug block \<in> set ops1 \<or> Dispose block \<in> set ops1"
    using that update_loose_blocks_sound [OF loop] by fastforce
  have first: "(\<exists>owner. DomToBlock block owner t \<in> set ops) \<longleftrightarrow>
                 call_site_outdated cfg initialTypes finalTypes block t"
    using sound complete by (auto simp: dom)
  have second: "Unplug block \<in> set ops \<longleftrightarrow> (\<exists>owner t'. DomToBlock block owner t' \<in> set ops)"
    using sound complete touched unfolding dom unplug by blast
  have third: "Dispose block \<in> set ops \<longleftrightarrow> (\<exists>owner t'. DomToBlock block owner t' \<in> set ops)"
    using sound complete touched unfolding dom dispose by blast
  from first second third assms(5) show ?thesis
    by (simp add: call_site_outdated_def)
qed

text \<open>
  C4. In a pass that completes, the toolbox refresh is requested exactly when some
  procedure code is in both snapshots with different types.
\<close>

theorem toolbox_refresh_iff_type_changed:
  assumes "initialProcedureReturnTypes ws = Some initialTypes"
      and "getAllProcedureReturnTypes ws = Inr finalTypes"
      and "processProcedureReturnsChanged cfg ws = (Inr (), ws', ops)"
  shows "RefreshToolboxSelection \<in> set ops \<longleftrightarrow>
           (\<exists>procCode ti tf. map_of initialTypes procCode = Some ti \<and>
              map_of finalTypes procCode = Some tf \<and> ti \<noteq> tf)"
proof -
  from assms obtain ops1 where
      loop: "update_loose_blocks cfg (Some initialTypes) finalTypes (topBlocks ws) = (Inr (), ops1)"
      and ops: "ops = SetGroup True # ops1 @ [SetGroup False] @
         (if \<exists>procCode ti tf. map_of initialTypes procCode = Some ti \<and>
                map_of finalTypes procCode = Some tf \<and> ti \<noteq> tf
          then [RefreshToolboxSelection] else [])"
    by (rule pass_completed)
  from update_loose_blocks_no_refresh [OF loop]
  have "RefreshToolboxSelection \<notin> set ops1" by simp
  then show ?thesis by (simp add: ops)
qed

lemmas pass_defs =
  processProcedureReturnsChanged_def getAllProcedureReturnTypes_def custom_block_def
  getBlockReturnType_def hasOwnProperty_def changeReturnType_def querySelector_mutation_def
  default_config_def Let_def

lemma drifted_final:
  "getAllProcedureReturnTypes drifted_workspace = Inr [(''foo'', REPORTER)]"
  by (simp add: drifted_workspace_def pass_defs concrete_defs)

lemma drifted_pass:
  "processProcedureReturnsChanged default_config drifted_workspace =
     (Inr (),
      drifted_workspace\<lparr>initialProcedureReturnTypes := None\<rparr>,
      [SetGroup True,
       Unplug (call_block ''c1'' ''foo'' STATEMENT),
       Dispose (call_block ''c1'' ''foo'' STATEMENT),
       DomToBlock (call_block ''c1'' ''foo'' STATEMENT) ''c1'' REPORTER,
       SetGroup False,
       RefreshToolboxSelection])"
  by (simp add: drifted_workspace_def pass_defs concrete_defs)

theorem reconciliation_rewrites_exactly_witness:
  "initialProcedureReturnTypes drifted_workspace = Some [(''foo'', STATEMENT)]
   \<and> getAllProcedureReturnTypes drifted_workspace = Inr [(''foo'', REPORTER)]
   \<and> call_block ''c1'' ''foo'' STATEMENT \<in> set (topBlocks drifted_workspace)
   \<and> type (info (call_block ''c1'' ''foo'' STATEMENT)) = PROCEDURES_CALL_BLOCK_TYPE
   \<and> \<not> isInsertionMarker (info (call_block ''c1'' ''foo'' STATEMENT))
   \<and> nextBlock (call_block ''c1'' ''foo'' STATEMENT) = None
   \<and> (\<exists>procCode ti.
         getProcCode (info (call_block ''c1'' ''foo'' STATEMENT)) = Some procCode \<and>
         map_of [(''foo'', STATEMENT)] procCode = Some ti \<and>
         map_of [(''foo'', REPORTER)] procCode = Some REPORTER \<and>
         getReturn (info (call_block ''c1'' ''foo'' STATEMENT)) \<noteq> REPORTER \<and>
         (\<not> USER_CAN_CHANGE_CALL_TYPE default_config \<or> ti \<noteq> REPORTER))"
proof -
  have init: "initialProcedureReturnTypes drifted_workspace = Some [(''foo'', STATEMENT)]"
    by (simp add: drifted_workspace_def concrete_defs)
  have top: "call_block ''c1'' ''foo'' STATEMENT \<in> set (topBlocks drifted_workspace)"
    by (simp add: drifted_workspace_def concrete_defs)
  have call: "type (info (call_block ''c1'' ''foo'' STATEMENT)) = PROCEDURES_CALL_BLOCK_TYPE"
    by (simp add: concrete_defs)
  have "\<exists>owner. DomToBlock (call_block ''c1'' ''foo'' STATEMENT) owner REPORTER
          \<in> set [SetGroup True,
                  Unplug (call_block ''c1'' ''foo'' STATEMENT),
                  Dispose (call_block ''c1'' ''foo'' STATEMENT),
                  DomToBlock (call_block ''c1'' ''foo'' STATEMENT) ''c1'' REPORTER,
                  SetGroup False,
                  RefreshToolboxSelection]"
    by simp
  with reconciliation_rewrites_exactly [OF init drifted_final drifted_pass top call, of REPORTER]
  have "\<not> isInsertionMarker (info (call_block ''c1'' ''foo'' STATEMENT))
   \<and> nextBlock (call_block ''c1'' ''foo'' STATEMENT) = None
   \<and> (\<exists>procCode ti.
         getProcCode (info (call_block ''c1'' ''foo'' STATEMENT)) = Some procCode \<and>
         map_of [(''foo'', STATEMENT)] procCode = Some ti \<and>
         map_of [(''foo'', REPORTER)] procCode = Some REPORTER \<and>
         getReturn (info (call_block ''c1'' ''foo'' STATEMENT)) \<noteq> REPORTER \<and>
         (\<not> USER_CAN_CHANGE_CALL_TYPE default_config \<or> ti \<noteq> REPORTER))"
    by blast
  with init drifted_final top call show ?thesis by blast
qed

theorem toolbox_refresh_iff_type_changed_witness:
  "initialProcedureReturnTypes drifted_workspace = Some [(''foo'', STATEMENT)]
   \<and> getAllProcedureReturnTypes drifted_workspace = Inr [(''foo'', REPORTER)]
   \<and> (\<exists>procCode ti tf. map_of [(''foo'', STATEMENT)] procCode = Some ti \<and>
              map_of [(''foo'', REPORTER)] procCode = Some tf \<and> ti \<noteq> tf)"
proof -
  have init: "initialProcedureReturnTypes drifted_workspace = Some [(''foo'', STATEMENT)]"
    by (simp add: drifted_workspace_def concrete_defs)
  have "RefreshToolboxSelection
          \<in> set [SetGroup True,
                  Unplug (call_block ''c1'' ''foo'' STATEMENT),
                  Dispose (call_block ''c1'' ''foo'' STATEMENT),
                  DomToBlock (call_block ''c1'' ''foo'' STATEMENT) ''c1'' REPORTER,
                  SetGroup False,
                  RefreshToolboxSelection]"
    by simp
  with toolbox_refresh_iff_type_changed [OF init drifted_final drifted_pass]
  have "\<exists>procCode ti tf. map_of [(''foo'', STATEMENT)] procCode = Some ti \<and>
              map_of [(''foo'', REPORTER)] procCode = Some tf \<and> ti \<noteq> tf"
    by blast
  with init drifted_final show ?thesis by blast
qed

section \<open>Callers and deletion: results\<close>

lemma getCallers_loop_filter:
  "\<forall>b \<in> set blocks. type (info b) = PROCEDURES_CALL_BLOCK_TYPE \<longrightarrow> getProcCode (info b) \<noteq> None \<Longrightarrow>
     getCallers_loop name blocks callers =
       Inr (callers @ filter (\<lambda>b. type (info b) = PROCEDURES_CALL_BLOCK_TYPE \<and> name \<noteq> [] \<and>
                                   getProcCode (info b) = Some name) blocks)"
  by (induction blocks arbitrary: callers) (auto split: option.splits)

text \<open>
  C9, as the code has it. When every call block among the investigated stacks has
  \<^verbatim>\<open>getProcCode\<close>, \<^verbatim>\<open>getCallers\<close> returns, in traversal order, exactly the call
  blocks whose procedure code is the given name and not empty, among the descendants of
  the top blocks, leaving out the top block with the id of \<^verbatim>\<open>definitionRoot\<close> unless
  \<^verbatim>\<open>allowRecursive\<close>. Insertion markers are not filtered out.
\<close>

theorem getCallers_exact:
  assumes "\<forall>b \<in> set (stacks_to_investigate ws definitionRoot allowRecursive).
             type (info b) = PROCEDURES_CALL_BLOCK_TYPE \<longrightarrow> getProcCode (info b) \<noteq> None"
  shows "getCallers name ws definitionRoot allowRecursive =
           Inr (filter (\<lambda>b. type (info b) = PROCEDURES_CALL_BLOCK_TYPE \<and> name \<noteq> [] \<and>
                             getProcCode (info b) = Some name)
                  (concat (map getDescendants
                     (filter (\<lambda>b. \<not> (id_of (info b) = id_of (info definitionRoot) \<and>
                                       \<not> allowRecursive))
                        (topBlocks ws)))))"
  using getCallers_loop_filter [OF assms, of name "[]"]
  by (simp add: getCallers_def stacks_to_investigate_def)

theorem getCallers_exact_witness:
  "getCallers ''foo'' drifted_workspace
        (definition_block ''d'' ''foo'' (Some (return_stmt ''r1'' (round_literal ''v1'') None)))
        False
      = Inr [call_block ''c1'' ''foo'' STATEMENT]"
proof -
  have wf: "\<forall>b \<in> set (stacks_to_investigate drifted_workspace
                  (definition_block ''d'' ''foo''
                     (Some (return_stmt ''r1'' (round_literal ''v1'') None))) False).
      type (info b) = PROCEDURES_CALL_BLOCK_TYPE \<longrightarrow> getProcCode (info b) \<noteq> None"
    by (simp add: stacks_to_investigate_def drifted_workspace_def concrete_defs)
  from getCallers_exact [OF wf, of "''foo''"] show ?thesis
    by (simp add: drifted_workspace_def concrete_defs)
qed

text \<open>
  C9 as stated fails: a call block flagged as insertion marker is returned, and a call
  block whose procedure code is the empty string is not returned for the empty name.
\<close>

theorem getCallers_keeps_insertion_marker:
  "getCallers ''foo'' marker_workspace (definition_block ''d'' ''foo'' None) False
     = Inr [Block ((info (call_block ''m1'' ''foo'' STATEMENT))\<lparr>isInsertionMarker := True\<rparr>) [] None]
   \<and> isInsertionMarker
       (info (Block ((info (call_block ''m1'' ''foo'' STATEMENT))\<lparr>isInsertionMarker := True\<rparr>) [] None))
   \<and> getCallers '''' marker_workspace (definition_block ''d'' ''foo'' None) False = Inr []
   \<and> call_block ''c0'' '''' STATEMENT \<in> set (topBlocks marker_workspace)
   \<and> type (info (call_block ''c0'' '''' STATEMENT)) = PROCEDURES_CALL_BLOCK_TYPE
   \<and> getProcCode (info (call_block ''c0'' '''' STATEMENT)) = Some ''''"
  by (simp add: getCallers_def stacks_to_investigate_def marker_workspace_def concrete_defs)

text \<open>
  C6. When \<^verbatim>\<open>getCallers\<close> without recursive calls returns a non-empty list,
  \<^verbatim>\<open>deleteProcedureDefCallback\<close> returns false and invokes nothing on the host;
  otherwise it disposes the definition stack between the opening and the closing of one
  change group, requests the toolbox refresh and returns true.
\<close>

theorem deleteProcedureDefCallback_refuses_or_disposes:
  assumes "getCallers procCode ws definitionRoot False = Inr callers"
  shows "deleteProcedureDefCallback procCode ws definitionRoot =
           (if callers \<noteq> [] then (Inr False, [])
            else (Inr True,
                  [SetGroup True, Dispose definitionRoot, SetGroup False,
                   RefreshToolboxSelection]))"
  using assms by (simp add: deleteProcedureDefCallback_def)

theorem deleteProcedureDefCallback_refuses_or_disposes_witness:
  "getCallers ''foo'' drifted_workspace
        (definition_block ''d'' ''foo'' (Some (return_stmt ''r1'' (round_literal ''v1'') None)))
        False
      = Inr [call_block ''c1'' ''foo'' STATEMENT]
   \<and> deleteProcedureDefCallback ''foo'' drifted_workspace
        (definition_block ''d'' ''foo'' (Some (return_stmt ''r1'' (round_literal ''v1'') None)))
      = (Inr False, [])
   \<and> getCallers ''foo'' (empty_workspace\<lparr>topBlocks := [definition_block ''d'' ''foo'' None]\<rparr>)
        (definition_block ''d'' ''foo'' None) False
      = Inr []
   \<and> deleteProcedureDefCallback ''foo''
        (empty_workspace\<lparr>topBlocks := [definition_block ''d'' ''foo'' None]\<rparr>)
        (definition_block ''d'' ''foo'' None)
      = (Inr True,
         [SetGroup True, Dispose (definition_block ''d'' ''foo'' None), SetGroup False,
          RefreshToolboxSelection])"
proof -
  have callers: "getCallers ''foo'' drifted_workspace
        (definition_block ''d'' ''foo'' (Some (return_stmt ''r1'' (round_literal ''v1'') None)))
        False
      = Inr [call_block ''c1'' ''foo'' STATEMENT]"
    by (simp add: getCallers_def stacks_to_investigate_def drifted_workspace_def concrete_defs)
  have none: "getCallers ''foo'' (empty_workspace\<lparr>topBlocks := [definition_block ''d'' ''foo'' None]\<rparr>)
        (definition_block ''d'' ''foo'' None) False
      = Inr []"
    by (simp add: getCallers_def stacks_to_investigate_def concrete_defs)
  from deleteProcedureDefCallback_refuses_or_disposes [OF callers]
       deleteProcedureDefCallback_refuses_or_disposes [OF none]
       callers none
  show ?thesis by simp
qed

section \<open>Renaming: results\<close>

lemmas name_defs =
  isLegalName_def isNameUsed_def getAllBlocks_def same_block_def Names_equals_def
  toLowerCase_def next_name_def match_suffix_def isDigit_def isLineTerminator_def
  parseInt_def trim_def isSpace_def

lemma findLegalName_bar:
  "findLegalName Names_equals two_procedures (trim ''bar '') (def_block ''d1'' ''foo'')
     = Some (Inr ''bar'')"
  by (subst findLegalName_def, subst findLegalName_loop.simps)
     (simp add: two_procedures_def name_defs concrete_defs)

lemma findLegalName_foo2:
  "findLegalName Names_equals suffixed_procedures (trim ''foo'') (def_block ''d1'' ''foo'')
     = Some (Inr ''foo2'')"
  by (subst findLegalName_def, subst findLegalName_loop.simps, subst findLegalName_loop.simps)
     (simp add: suffixed_procedures_def name_defs concrete_defs)

text \<open>
  C7, as the code has it. When \<^verbatim>\<open>findLegalName\<close> returns a name for the stripped
  proposed name, \<^verbatim>\<open>rename\<close> returns that name; when the old name differs from both
  the stripped proposed name and the accepted name, it invokes \<^verbatim>\<open>renameProcedure\<close>
  once on every block of the workspace that has the method, in workspace order, and on
  no block otherwise. It opens and closes no change group.
\<close>

theorem rename_propagates:
  assumes "findLegalName equals ws (trim name) sourceBlock = Some (Inr legalName)"
  shows "\<exists>ops. rename equals ws sourceBlock oldName name = Some (Inr legalName, ops) \<and>
           ops = (if oldName \<noteq> trim name \<and> oldName \<noteq> legalName
                  then map (\<lambda>b. RenameProcedure b oldName legalName)
                         (filter (\<lambda>b. renameProcedure (info b)) (getAllBlocks ws))
                  else []) \<and>
           SetGroup True \<notin> set ops \<and> SetGroup False \<notin> set ops"
  using assms by (auto simp: rename_def)

theorem rename_propagates_witness:
  "findLegalName Names_equals two_procedures (trim ''bar '') (def_block ''d1'' ''foo'')
     = Some (Inr ''bar'')
   \<and> rename Names_equals two_procedures (def_block ''d1'' ''foo'') ''foo'' ''bar ''
     = Some (Inr ''bar'',
             [RenameProcedure (def_block ''d1'' ''foo'') ''foo'' ''bar'',
              RenameProcedure (def_block ''d2'' ''bar'') ''foo'' ''bar''])"
proof -
  have "trim ''bar '' = ''bar''"
    by (simp add: trim_def isSpace_def)
  moreover have "getAllBlocks two_procedures = [def_block ''d1'' ''foo'', def_block ''d2'' ''bar'']"
    by (simp add: getAllBlocks_def two_procedures_def concrete_defs)
  moreover have "renameProcedure (info (def_block i n))" for i n
    by (simp add: concrete_defs)
  ultimately show ?thesis
    using rename_propagates [OF findLegalName_bar, of "''foo''"] findLegalName_bar
    by auto
qed

text \<open>
  C7 as stated fails: the accepted name \<open>foo2\<close> differs from the old name
  \<open>foo\<close>, yet \<^verbatim>\<open>renameProcedure\<close> is invoked on no block, because the proposed
  name equals the old one; and when callers are renamed, no change group is opened.
\<close>

theorem rename_skips_callers_and_group:
  "rename Names_equals suffixed_procedures (def_block ''d1'' ''foo'') ''foo'' ''foo''
     = Some (Inr ''foo2'', [])
   \<and> renameProcedure (info (def_block ''d2'' ''foo2''))
   \<and> def_block ''d2'' ''foo2'' \<in> set (getAllBlocks suffixed_procedures)
   \<and> rename Names_equals two_procedures (def_block ''d1'' ''foo'') ''foo'' ''bar ''
     = Some (Inr ''bar'',
             [RenameProcedure (def_block ''d1'' ''foo'') ''foo'' ''bar'',
              RenameProcedure (def_block ''d2'' ''bar'') ''foo'' ''bar''])"
proof -
  have a: "rename Names_equals suffixed_procedures (def_block ''d1'' ''foo'') ''foo'' ''foo''
     = Some (Inr ''foo2'', [])"
    by (simp add: rename_def findLegalName_foo2) (simp add: trim_def isSpace_def)
  have b: "renameProcedure (info (def_block ''d2'' ''foo2''))"
    by (simp add: concrete_defs)
  have c: "def_block ''d2'' ''foo2'' \<in> set (getAllBlocks suffixed_procedures)"
    by (simp add: getAllBlocks_def suffixed_procedures_def concrete_defs)
  have d: "rename Names_equals two_procedures (def_block ''d1'' ''foo'') ''foo'' ''bar ''
     = Some (Inr ''bar'',
             [RenameProcedure (def_block ''d1'' ''foo'') ''foo'' ''bar'',
              RenameProcedure (def_block ''d2'' ''bar'') ''foo'' ''bar''])"
    by (simp add: rename_def findLegalName_bar)
       (simp add: trim_def isSpace_def getAllBlocks_def two_procedures_def concrete_defs)
  from a b c d show ?thesis by blast
qed

section \<open>Toolbox listing: results\<close>

lemma mset_insert_mutation: "mset (insert_mutation cmp a ms) = add_mset a (mset ms)"
  by (induction ms) auto

lemma mset_sortProcedureMutations: "mset (sortProcedureMutations cmp ms) = mset ms"
  by (induction ms) (auto simp: sortProcedureMutations_def mset_insert_mutation)

lemma set_insert_mutation: "set (insert_mutation cmp a ms) = insert a (set ms)"
  by (induction ms) auto

lemma sorted_insert_mutation:
  assumes total: "\<And>x y. cmp x y \<le> 0 \<or> cmp y x \<le> 0"
      and trans: "\<And>x y z. cmp x y \<le> 0 \<Longrightarrow> cmp y z \<le> 0 \<Longrightarrow> cmp x z \<le> 0"
  shows "sorted_wrt (\<lambda>a b. cmp (proccode a) (proccode b) \<le> 0) ms \<Longrightarrow>
         sorted_wrt (\<lambda>a b. cmp (proccode a) (proccode b) \<le> 0) (insert_mutation cmp a ms)"
proof (induction ms)
  case Nil
  then show ?case by simp
next
  case (Cons b bs)
  show ?case
  proof (cases "cmp (proccode a) (proccode b) \<le> 0")
    case True
    with Cons.prems show ?thesis
      by (auto intro: trans)
  next
    case False
    with total have "cmp (proccode b) (proccode a) \<le> 0" by blast
    with False Cons show ?thesis
      by (auto simp: set_insert_mutation)
  qed
qed

lemma sorted_sortProcedureMutations:
  assumes "\<And>x y. cmp x y \<le> 0 \<or> cmp y x \<le> 0"
      and "\<And>x y z. cmp x y \<le> 0 \<Longrightarrow> cmp y z \<le> 0 \<Longrightarrow> cmp x z \<le> 0"
  shows "sorted_wrt (\<lambda>a b. cmp (proccode a) (proccode b) \<le> 0) (sortProcedureMutations cmp ms)"
proof (induction ms)
  case Nil
  then show ?case by (simp add: sortProcedureMutations_def)
next
  case (Cons m ms)
  have "sorted_wrt (\<lambda>a b. cmp (proccode a) (proccode b) \<le> 0)
          (insert_mutation cmp m (sortProcedureMutations cmp ms))"
    using assms Cons.IH
      sorted_insert_mutation [where cmp = cmp and ms = "sortProcedureMutations cmp ms" and a = m]
    by blast
  then show ?case by (simp add: sortProcedureMutations_def)
qed

lemma push_call_blocks_result:
  "push_call_blocks ws ms xmlList = Inr result \<Longrightarrow>
     (\<forall>m \<in> set ms. \<exists>t. getProcedureReturnType (proccode m) ws = Inr t) \<and>
     result = xmlList @
       map (\<lambda>m. Call_block
                  (case getProcedureReturnType (proccode m) ws of
                     Inl e \<Rightarrow> m
                   | Inr t \<Rightarrow> if t \<noteq> STATEMENT then m\<lparr>return_attr := Text_of t\<rparr> else m)) ms"
proof (induction ms arbitrary: xmlList)
  case Nil
  then show ?case by simp
next
  case (Cons m ms)
  from Cons.prems obtain t where
      t: "getProcedureReturnType (proccode m) ws = Inr t"
      and rest: "push_call_blocks ws ms
                   (xmlList @ [Call_block (if t \<noteq> STATEMENT
                                           then m\<lparr>return_attr := Text_of t\<rparr> else m)])
                 = Inr result"
    by (auto split: sum.splits)
  from Cons.IH [OF rest] t show ?case by simp
qed

text \<open>
  C8, as the code has it. When \<^verbatim>\<open>flyoutCategory\<close> returns a list, the list is: the
  button on how to use return and the return block, both present when
  \<^verbatim>\<open>DEFAULT_ENABLE_RETURNS\<close> is set and there is a prototype mutation, or when it is
  not set and the workspace has \<^verbatim>\<open>procedureReturnsEnabled\<close>; then the button that
  creates a procedure; then one call block for every mutation of a prototype block, a
  procedure code defined twice being listed twice, in the order of
  \<^verbatim>\<open>sortProcedureMutations_\<close>, each with the inferred return type as its
  \<^verbatim>\<open>return\<close> attribute unless that type is the statement type. The sorted list is a
  permutation of the mutations, and it is sorted when the comparison is total and
  transitive.
\<close>

theorem flyoutCategory_listing:
  assumes "flyoutCategory cmp cfg ws = (Inr xmlList, ops)"
  shows "xmlList =
           (if (if DEFAULT_ENABLE_RETURNS cfg then allProcedureMutations ws \<noteq> []
                else procedureReturnsEnabled ws)
            then [Button ''OPEN_RETURN_DOCS'', Return_block] else []) @
           [Button ''CREATE_PROCEDURE''] @
           map (\<lambda>m. Call_block
                  (case getProcedureReturnType (proccode m) ws of
                     Inl e \<Rightarrow> m
                   | Inr t \<Rightarrow> if t \<noteq> STATEMENT then m\<lparr>return_attr := Text_of t\<rparr> else m))
             (sortProcedureMutations cmp (allProcedureMutations ws))
         \<and> (\<forall>m \<in> set (allProcedureMutations ws).
               \<exists>t. getProcedureReturnType (proccode m) ws = Inr t)
         \<and> mset (sortProcedureMutations cmp (allProcedureMutations ws))
             = mset (allProcedureMutations ws)
         \<and> ((\<forall>x y. cmp x y \<le> 0 \<or> cmp y x \<le> 0) \<and>
            (\<forall>x y z. cmp x y \<le> 0 \<and> cmp y z \<le> 0 \<longrightarrow> cmp x z \<le> 0) \<longrightarrow>
            sorted_wrt (\<lambda>a b. cmp (proccode a) (proccode b) \<le> 0)
              (sortProcedureMutations cmp (allProcedureMutations ws)))"
proof -
  let ?ms = "sortProcedureMutations cmp (allProcedureMutations ws)"
  from assms obtain pushed where
      pushed: "push_call_blocks ws ?ms [Button ''CREATE_PROCEDURE''] = Inr pushed"
      and xml: "xmlList =
        (if (if DEFAULT_ENABLE_RETURNS cfg then length ?ms > 0 else procedureReturnsEnabled ws)
         then Button ''OPEN_RETURN_DOCS'' # Return_block # pushed else pushed)"
    by (auto simp: flyoutCategory_def Let_def split: sum.splits)
  have perm: "mset ?ms = mset (allProcedureMutations ws)"
    by (rule mset_sortProcedureMutations)
  then have len: "length ?ms > 0 \<longleftrightarrow> allProcedureMutations ws \<noteq> []"
    by (metis length_greater_0_conv mset_zero_iff)
  from perm have sets: "set ?ms = set (allProcedureMutations ws)"
    by (rule mset_eq_setD)
  from push_call_blocks_result [OF pushed] have
      types: "\<forall>m \<in> set ?ms. \<exists>t. getProcedureReturnType (proccode m) ws = Inr t"
      and result: "pushed = [Button ''CREATE_PROCEDURE''] @
       map (\<lambda>m. Call_block
                  (case getProcedureReturnType (proccode m) ws of
                     Inl e \<Rightarrow> m
                   | Inr t \<Rightarrow> if t \<noteq> STATEMENT then m\<lparr>return_attr := Text_of t\<rparr> else m)) ?ms"
    by blast+
  have sorted: "sorted_wrt (\<lambda>a b. cmp (proccode a) (proccode b) \<le> 0) ?ms"
    if "\<forall>x y. cmp x y \<le> 0 \<or> cmp y x \<le> 0"
       "\<forall>x y z. cmp x y \<le> 0 \<and> cmp y z \<le> 0 \<longrightarrow> cmp x z \<le> 0"
    using that by (intro sorted_sortProcedureMutations) blast+
  from xml result len have first: "xmlList =
           (if (if DEFAULT_ENABLE_RETURNS cfg then allProcedureMutations ws \<noteq> []
                else procedureReturnsEnabled ws)
            then [Button ''OPEN_RETURN_DOCS'', Return_block] else []) @
           [Button ''CREATE_PROCEDURE''] @
           map (\<lambda>m. Call_block
                  (case getProcedureReturnType (proccode m) ws of
                     Inl e \<Rightarrow> m
                   | Inr t \<Rightarrow> if t \<noteq> STATEMENT then m\<lparr>return_attr := Text_of t\<rparr> else m)) ?ms"
    by simp
  from first types perm sorted show ?thesis
    unfolding sets by blast
qed

lemmas flyout_defs =
  flyoutCategory_def allProcedureMutations_def sortProcedureMutations_def getAllBlocks_def
  getProcedureReturnType_def getDefineBlock_def custom_block_def getBlockReturnType_def
  compareStrings_def toLowerCase_def Let_def default_config_def

lemma twice_defined_listing:
  "flyoutCategory compareStrings default_config twice_defined =
     (Inr [Button ''OPEN_RETURN_DOCS'', Return_block, Button ''CREATE_PROCEDURE'',
           Call_block \<lparr>proccode = ''Bar'', return_attr = No_attribute, other_attrs = []\<rparr>,
           Call_block \<lparr>proccode = ''foo'', return_attr = Text_of REPORTER, other_attrs = []\<rparr>,
           Call_block \<lparr>proccode = ''foo'', return_attr = Text_of REPORTER, other_attrs = []\<rparr>],
      [RegisterButtonCallback ''CREATE_PROCEDURE''])"
  by (simp add: twice_defined_def flyout_defs concrete_defs)

lemma compare_codes_total: "compare_codes a b \<le> 0 \<or> compare_codes b a \<le> 0"
  by (induction a b rule: compare_codes.induct) auto

lemma compare_codes_trans:
  "compare_codes a b \<le> 0 \<Longrightarrow> compare_codes b c \<le> 0 \<Longrightarrow> compare_codes a c \<le> 0"
proof (induction a arbitrary: b c)
  case Nil
  then show ?case by (cases c) auto
next
  case (Cons x xs)
  then show ?case
    by (cases b; cases c) (auto split: if_splits)
qed

theorem flyoutCategory_listing_witness:
  "flyoutCategory compareStrings default_config twice_defined =
     (Inr [Button ''OPEN_RETURN_DOCS'', Return_block, Button ''CREATE_PROCEDURE'',
           Call_block \<lparr>proccode = ''Bar'', return_attr = No_attribute, other_attrs = []\<rparr>,
           Call_block \<lparr>proccode = ''foo'', return_attr = Text_of REPORTER, other_attrs = []\<rparr>,
           Call_block \<lparr>proccode = ''foo'', return_attr = Text_of REPORTER, other_attrs = []\<rparr>],
      [RegisterButtonCallback ''CREATE_PROCEDURE''])
   \<and> sorted_wrt (\<lambda>a b. compareStrings (proccode a) (proccode b) \<le> 0)
       (sortProcedureMutations compareStrings (allProcedureMutations twice_defined))
   \<and> mset (sortProcedureMutations compareStrings (allProcedureMutations twice_defined))
       = mset (allProcedureMutations twice_defined)"
proof -
  have total: "\<forall>x y. compareStrings x y \<le> 0 \<or> compareStrings y x \<le> 0"
    by (simp add: compareStrings_def compare_codes_total)
  have trans: "\<forall>x y z. compareStrings x y \<le> 0 \<and> compareStrings y z \<le> 0
                 \<longrightarrow> compareStrings x z \<le> 0"
    unfolding compareStrings_def by (blast intro: compare_codes_trans)
  from flyoutCategory_listing [OF twice_defined_listing] total trans twice_defined_listing
  show ?thesis by blast
qed

text \<open>
  C8 as stated fails: the button that creates a procedure comes after the button on how
  to use return and the return block, the procedure code \<open>foo\<close>, defined twice, has
  two call blocks, and with \<^verbatim>\<open>DEFAULT_ENABLE_RETURNS\<close> set the return block is left
  out of an empty workspace.
\<close>

theorem flyoutCategory_order_and_duplicates:
  "flyoutCategory compareStrings default_config twice_defined =
     (Inr [Button ''OPEN_RETURN_DOCS'', Return_block, Button ''CREATE_PROCEDURE'',
           Call_block \<lparr>proccode = ''Bar'', return_attr = No_attribute, other_attrs = []\<rparr>,
           Call_block \<lparr>proccode = ''foo'', return_attr = Text_of REPORTER, other_attrs = []\<rparr>,
           Call_block \<lparr>proccode = ''foo'', return_attr = Text_of REPORTER, other_attrs = []\<rparr>],
      [RegisterButtonCallback ''CREATE_PROCEDURE''])
   \<and> flyoutCategory compareStrings (default_config\<lparr>DEFAULT_ENABLE_RETURNS := True\<rparr>)
       empty_workspace =
     (Inr [Button ''CREATE_PROCEDURE''], [RegisterButtonCallback ''CREATE_PROCEDURE''])"
proof -
  have "flyoutCategory compareStrings (default_config\<lparr>DEFAULT_ENABLE_RETURNS := True\<rparr>)
       empty_workspace =
     (Inr [Button ''CREATE_PROCEDURE''], [RegisterButtonCallback ''CREATE_PROCEDURE''])"
    by (simp add: flyout_defs concrete_defs)
  with twice_defined_listing show ?thesis by blast
qed

section \<open>Change groups: results\<close>

text \<open>
  C10. The end of the change group is to be reached even when a step inside throws. In
  the reconciliation pass, a rewrite that throws leaves the group open, with the call
  block already disposed; so does a pass that finds no initial snapshot. In
  \<^verbatim>\<open>mutateCallersAndPrototype\<close>, a caller without mutation leaves the group open. The
  callback of \<^verbatim>\<open>makeChangeTypeOption\<close>, which has \<^verbatim>\<open>try ... finally\<close>, closes
  the group on the same throwing rewrite.
\<close>

theorem group_left_open_on_exception:
  "processProcedureReturnsChanged default_config throwing_workspace =
     (Inl TypeError,
      throwing_workspace\<lparr>initialProcedureReturnTypes := None\<rparr>,
      [SetGroup True, Unplug bare_call, Dispose bare_call])
   \<and> processProcedureReturnsChanged default_config
       (drifted_workspace\<lparr>initialProcedureReturnTypes := None\<rparr>) =
     (Inl TypeError,
      drifted_workspace\<lparr>initialProcedureReturnTypes := None\<rparr>,
      [SetGroup True])
   \<and> mutateCallersAndPrototype mutationAfter ''foo'' throwing_workspace m =
     (Inl TypeError, [SetGroup True])
   \<and> makeChangeTypeOption_callback throwing_workspace bare_call =
     (Inl TypeError, [SetGroup True, Unplug bare_call, Dispose bare_call, SetGroup False])"
proof -
  have a: "processProcedureReturnsChanged default_config throwing_workspace =
     (Inl TypeError,
      throwing_workspace\<lparr>initialProcedureReturnTypes := None\<rparr>,
      [SetGroup True, Unplug bare_call, Dispose bare_call])"
    by (simp add: throwing_workspace_def bare_call_def pass_defs concrete_defs)
  have b: "processProcedureReturnsChanged default_config
       (drifted_workspace\<lparr>initialProcedureReturnTypes := None\<rparr>) =
     (Inl TypeError,
      drifted_workspace\<lparr>initialProcedureReturnTypes := None\<rparr>,
      [SetGroup True])"
    by (simp add: drifted_workspace_def pass_defs concrete_defs)
  have c: "mutateCallersAndPrototype mutationAfter ''foo'' throwing_workspace m =
     (Inl TypeError, [SetGroup True])"
    by (simp add: mutateCallersAndPrototype_def getDefineBlock_def getPrototypeBlock_def
        getCallers_def stacks_to_investigate_def custom_block_def
        throwing_workspace_def bare_call_def concrete_defs)
  have d: "makeChangeTypeOption_callback throwing_workspace bare_call =
     (Inl TypeError, [SetGroup True, Unplug bare_call, Dispose bare_call, SetGroup False])"
    by (simp add: makeChangeTypeOption_callback_def getProcedureReturnType_def
        getDefineBlock_def custom_block_def getBlockReturnType_def changeReturnType_def
        querySelector_mutation_def Let_def throwing_workspace_def bare_call_def concrete_defs)
  from a b c d show ?thesis by blast
qed

end
